theory Spec2Isabelle
  imports Complex_Main "HOL-Library.Sublist" "HOL-Library.Log_Nat"
begin

section \<open>Harm assessment: the fusion calculator and the analyze route\<close>

text \<open>
  The development embeds \<^verbatim>\<open>server/src/services/harmIndex.ts\<close> and the handler of
  \<^verbatim>\<open>server/src/routes/analyze.ts\<close>.

  Number model. A TypeScript \<^verbatim>\<open>number\<close> is a binary64 floating-point number. It is
  modelled by its value, a rational (\<^typ>\<open>rat\<close>), and the arithmetic of
  \<open>computeHarmIndex\<close> is the arithmetic of IEEE 754: each sum, product and quotient is
  the exact result rounded to the nearest binary64 number, a tie going to the even
  significand (\<open>binary64\<close>, with subnormal numbers), and a decimal literal is the binary64
  number nearest to it. A signal held in a record is written as a rational; the number
  the program holds for it is its rounding, and a rational that is a binary64 number is
  its own rounding (\<open>binary64_exact\<close>, \<open>binary64_idem\<close>). NaN and the infinities are
  outside the model: the exponent range has no upper end, so a result of magnitude
  \<open>2^1024\<close> or more is rounded and not turned into Infinity. On the signals of the
  specification, which lie between 0 and 1, no operation comes near that magnitude.
  The comparisons of the outcome predictor and of the narrative composer compare a
  signal with the decimal itself.

  String model. A string is a \<^typ>\<open>string\<close> holding the UTF-8 bytes of the source text,
  so the bullet U+2022 is three characters.
\<close>

subsection \<open>Data model (\<^verbatim>\<open>harmIndex.ts\<close>, lines 1-46, and \<^verbatim>\<open>types.ts\<close>)\<close>

text \<open>The string unions \<^verbatim>\<open>'High' | 'Medium' | 'Low'\<close> of risk level, probability and
  evidence confidence.\<close>

datatype Level = High | Medium | Low

text \<open>The string union of \<^verbatim>\<open>IntentAnalysis.type\<close>; \<open>typeName\<close> is the string a value
  is at run time.\<close>

datatype IntentType = Informational | Persuasive | Inciting | Alarmist | Action_oriented

fun typeName :: "IntentType \<Rightarrow> string" where
  "typeName Informational = ''Informational''"
| "typeName Persuasive = ''Persuasive''"
| "typeName Inciting = ''Inciting''"
| "typeName Alarmist = ''Alarmist''"
| "typeName Action_oriented = ''Action-oriented''"

record EmotionScores =
  anger :: rat
  fear :: rat
  joy :: rat
  sadness :: rat
  neutral :: rat

record IntentAnalysis =
  type :: IntentType
  hasExplicitCTA :: bool
  hasImplicitCTA :: bool
  dogWhistleProbability :: rat

record TruthVerification =
  similarityToFalseNarratives :: rat
  evidenceConfidence :: Level
  contradictorySources :: bool
  similarClaims :: "string list"

text \<open>A run-time value of the host language, as far as the handler inspects one: the
  \<^verbatim>\<open>text\<close> property of the request body is untyped (\<^verbatim>\<open>any\<close>).\<close>

datatype JsValue =
    JUndefined
  | JNull
  | JBoolean bool
  | JNumber rat
  | JString string
  | JArray "JsValue list"
  | JObject "(string \<times> JsValue) list"

record CnnPattern =
  category :: string
  matches :: "string list"
  score :: rat

text \<open>\<^verbatim>\<open>harm_score\<close> is declared \<^verbatim>\<open>number\<close>; the handler reads it with \<^verbatim>\<open>?? 0\<close>, so the
  model lets the field be absent (\<open>None\<close>).\<close>

record CNNBertResult =
  harm_score :: "rat option"
  confidence :: rat
  bert_features :: "(string \<times> JsValue) list"
  cnn_patterns :: "CnnPattern list"

datatype TrendDirection = increasing | decreasing | stable

record TrendData =
  category :: string
  current_level :: rat
  trend_direction :: TrendDirection
  volatility :: rat
  recent_spike :: bool

record Incident =
  category :: string
  date :: string
  description :: string
  outcome :: string

record TimeSeriesData =
  detected_categories :: "string list"
  trends :: "TrendData list"
  historical_context :: string
  risk_forecast :: string
  similar_incidents :: "Incident list"

record LLMExplanation =
  explanation :: string
  insights :: "string list"
  recommendations :: "string list"

text \<open>\<^verbatim>\<open>cnnHarmScore?: number\<close> is an optional field: \<open>None\<close> is the absent field.\<close>

record HarmIndexInput =
  text' :: string
  emotionScores :: EmotionScores
  intentAnalysis :: IntentAnalysis
  truthVerification :: TruthVerification
  cnnHarmScore :: "rat option"

record Outcome =
  outcome :: string
  probability :: Level

record HistoricalContext =
  pastOutcomes :: "Outcome list"

subsection \<open>Numbers: binary64 arithmetic\<close>

text \<open>Rounding to the nearest integer, a tie going to the even one.\<close>

definition roundTiesToEven :: "rat \<Rightarrow> int" where
  "roundTiesToEven x =
     (let f = \<lfloor>x\<rfloor>; r = x - of_int f
      in if r < 1 / 2 then f else if 1 / 2 < r then f + 1 else if even f then f else f + 1)"

text \<open>The binary exponent of a positive number: \<open>2 powi exponent x \<le> x < 2 powi (exponent x + 1)\<close>.\<close>

definition exponent :: "rat \<Rightarrow> int" where
  "exponent x = (if 1 \<le> x then bitlen \<lfloor>x\<rfloor> - 1 else - bitlen (\<lceil>1 / x\<rceil> - 1))"

text \<open>The binary64 number nearest to \<open>x\<close>: a significand of 53 bits, and a unit in the
  last place of at least \<open>2 powi - 1074\<close> (the subnormal numbers).\<close>

definition binary64 :: "rat \<Rightarrow> rat" where
  "binary64 x =
     (if x = 0 then 0
      else let q = max (exponent \<bar>x\<bar> - 52) (- 1074)
           in of_int (roundTiesToEven (x / 2 powi q)) * 2 powi q)"

text \<open>The operators \<^verbatim>\<open>+\<close>, \<open>*\<close> and \<^verbatim>\<open>/\<close> on numbers.\<close>

definition fadd :: "rat \<Rightarrow> rat \<Rightarrow> rat" where
  "fadd x y = binary64 (x + y)"

definition fmul :: "rat \<Rightarrow> rat \<Rightarrow> rat" where
  "fmul x y = binary64 (x * y)"

definition fdiv :: "rat \<Rightarrow> rat \<Rightarrow> rat" where
  "fdiv x y = binary64 (x / y)"

subsection \<open>Library functions of the host language\<close>

text \<open>\<^verbatim>\<open>Math.round\<close>: the nearest integer, a tie going towards plus infinity. The
  function is exact, and its result is again a \<^verbatim>\<open>number\<close>.\<close>

definition Math_round :: "rat \<Rightarrow> rat" where
  "Math_round x = of_int \<lfloor>x + 1 / 2\<rfloor>"

text \<open>\<^verbatim>\<open>Array.prototype.join\<close> on an array of strings.\<close>

fun join :: "string \<Rightarrow> string list \<Rightarrow> string" where
  "join sep [] = []"
| "join sep [p] = p"
| "join sep (p # q # ps) = p @ sep @ join sep (q # ps)"

text \<open>The bullet, U+2022, and the two literals \<^verbatim>\<open>'\<bullet> '\<close> and \<^verbatim>\<open>'\n\<bullet> '\<close> of
  \<^verbatim>\<open>generateExplanation\<close>.\<close>

definition bullet :: string where
  "bullet = [CHR 0xE2, CHR 0x80, CHR 0xA2]"

definition bulletSpace :: string where
  "bulletSpace = bullet @ '' ''"

definition newlineBulletSpace :: string where
  "newlineBulletSpace = CHR 0x0A # bullet @ '' ''"

subsection \<open>\<^verbatim>\<open>generateHistoricalOutcomes\<close> (lines 125-168)\<close>

text \<open>The parameter \<^verbatim>\<open>intentType\<close> is declared \<^verbatim>\<open>string\<close>, and is modelled as one. Each
  \<^verbatim>\<open>push\<close> appends to the array built so far.\<close>

definition generateHistoricalOutcomes :: "rat \<Rightarrow> string \<Rightarrow> EmotionScores \<Rightarrow> Outcome list" where
  "generateHistoricalOutcomes harmIndex intentType emotions =
    (let outcomes = [];
         outcomes = (if fear emotions > 0.6
           then outcomes @ [\<lparr>outcome = ''Panic behavior or anxiety'',
                              probability = (if harmIndex > 60 then High else Medium)\<rparr>]
           else outcomes);
         outcomes = (if anger emotions > 0.6
           then outcomes @ [\<lparr>outcome = ''Social unrest or confrontational behavior'',
                              probability = (if harmIndex > 70 then High else Medium)\<rparr>]
           else outcomes);
         outcomes = (if intentType = ''Alarmist'' \<or> intentType = ''Inciting''
           then outcomes @ [\<lparr>outcome = ''Rapid misinformation spread'', probability = High\<rparr>]
           else outcomes);
         outcomes = (if intentType = ''Action-oriented''
           then outcomes @ [\<lparr>outcome = ''Inappropriate action without verification'',
                              probability = Medium\<rparr>]
           else outcomes);
         outcomes = (if length outcomes = 0
           then outcomes @ [\<lparr>outcome = ''Limited behavioral impact'', probability = Low\<rparr>]
           else outcomes)
     in outcomes)"

subsection \<open>\<^verbatim>\<open>generateExplanation\<close> (lines 170-210)\<close>

text \<open>\<open>explanationParts\<close> is the array \<^verbatim>\<open>parts\<close> as it stands at the \<^verbatim>\<open>return\<close>.\<close>

definition explanationParts :: "EmotionScores \<Rightarrow> IntentAnalysis \<Rightarrow> TruthVerification \<Rightarrow> string list" where
  "explanationParts emotions intent truth =
    (let parts = [];
         parts = (if anger emotions > 0.6 \<or> fear emotions > 0.6
           then parts @ [''The statement is conveyed with **high emotional intensity** (anger and/or fear)'']
           else if anger emotions > 0.3 \<or> fear emotions > 0.3
           then parts @ [''The statement shows **moderate emotional intensity**'']
           else parts @ [''The statement has **low emotional intensity**'']);
         parts = (if hasExplicitCTA intent
           then parts @ [''It includes **explicit calls to action**'']
           else if hasImplicitCTA intent
           then parts @ [''It includes **implicit calls to action**'']
           else parts);
         parts = (if dogWhistleProbability intent > 0.6
           then parts @ [''Potential **coded language or dog-whistles** detected'']
           else parts);
         parts = (if similarityToFalseNarratives truth > 0.7
           then parts @ [''It shows **high similarity to known false narratives**'']
           else if similarityToFalseNarratives truth > 0.4
           then parts @ [''It shows **moderate similarity to debunked claims**'']
           else parts);
         parts = (if contradictorySources truth
           then parts @ [''Current verified sources **contradict or do not support** the claim'']
           else parts)
     in parts)"

definition generateExplanation ::
    "rat \<Rightarrow> EmotionScores \<Rightarrow> IntentAnalysis \<Rightarrow> TruthVerification \<Rightarrow> string" where
  "generateExplanation harmIndex emotions intent truth =
     bulletSpace @ join newlineBulletSpace (explanationParts emotions intent truth)"

subsection \<open>\<^verbatim>\<open>computeHarmIndex\<close> (lines 48-123)\<close>

text \<open>The interface \<^verbatim>\<open>HarmAssessment\<close> (lines 31-46), declared here so that the parameter
  \<^verbatim>\<open>harmIndex\<close> of the two functions above keeps its name.\<close>

record HarmAssessment =
  harmIndex :: rat
  riskLevel :: Level
  uncertainty :: rat
  emotionScores :: EmotionScores
  intentAnalysis :: IntentAnalysis
  truthVerification :: TruthVerification
  historicalContext :: HistoricalContext
  cnnHarmScore :: "rat option"
  explanation :: string

text \<open>The two lookup tables are object literals indexed by a value of the union type,
  so every lookup succeeds. Their entries are the binary64 numbers of the literals.\<close>

fun intentRiskMap :: "IntentType \<Rightarrow> rat" where
  "intentRiskMap Informational = binary64 0.1"
| "intentRiskMap Persuasive = binary64 0.4"
| "intentRiskMap Action_oriented = binary64 0.6"
| "intentRiskMap Alarmist = binary64 0.75"
| "intentRiskMap Inciting = binary64 0.9"

fun evidenceConfidenceMap :: "Level \<Rightarrow> rat" where
  "evidenceConfidenceMap High = binary64 0.1"
| "evidenceConfidenceMap Medium = binary64 0.5"
| "evidenceConfidenceMap Low = binary64 0.8"

text \<open>Every arithmetic operator of the source is the binary64 operation, applied in the
  order in which the source applies it; a signal is read as the binary64 number it
  holds; the integer constants are binary64 numbers as they stand.
  \<^verbatim>\<open>input.cnnHarmScore || 0\<close>: the right operand is taken when the left one is falsy,
  that is absent or zero. \<^verbatim>\<open>Math.min\<close> and the comparisons are exact.\<close>

definition computeHarmIndex :: "HarmIndexInput \<Rightarrow> HarmAssessment" where
  "computeHarmIndex input =
    (let emotionScores = HarmIndexInput.emotionScores input;
         intentAnalysis = HarmIndexInput.intentAnalysis input;
         truthVerification = HarmIndexInput.truthVerification input;
         emotionVolatility =
           fdiv (fadd (fmul (binary64 (anger emotionScores)) (binary64 1.2))
                      (fmul (binary64 (fear emotionScores)) (binary64 1.1))) 2;
         baseIntentRisk = intentRiskMap (type intentAnalysis);
         ctaBonus = (if hasExplicitCTA intentAnalysis then binary64 0.15
                     else if hasImplicitCTA intentAnalysis then binary64 0.1 else 0);
         dogWhistleBonus =
           fmul (binary64 (dogWhistleProbability intentAnalysis)) (binary64 0.2);
         intentRisk = min 1 (fadd (fadd baseIntentRisk ctaBonus) dogWhistleBonus);
         historicalHarm = binary64 (similarityToFalseNarratives truthVerification);
         truthUncertainty = evidenceConfidenceMap (evidenceConfidence truthVerification);
         contradictionBonus =
           (if contradictorySources truthVerification then binary64 0.15 else 0);
         finalTruthUncertainty = min 1 (fadd truthUncertainty contradictionBonus);
         cnnScore = (case HarmIndexInput.cnnHarmScore input of
                       None \<Rightarrow> 0
                     | Some s \<Rightarrow> if binary64 s = 0 then 0 else binary64 s);
         harmIndex = Math_round
           (fadd (fadd (fadd (fadd (fmul emotionVolatility 20) (fmul intentRisk 25))
                             (fmul historicalHarm 20))
                       (fmul finalTruthUncertainty 15))
                 (fmul cnnScore 20));
         riskLevel = (if harmIndex \<le> 30 then Low
                      else if harmIndex \<le> 60 then Medium
                      else High);
         uncertainty =
           fadd 10 (Math_round (fadd (fmul emotionVolatility 5)
                                     (fmul finalTruthUncertainty 5)));
         pastOutcomes = generateHistoricalOutcomes harmIndex
                          (typeName (type intentAnalysis)) emotionScores;
         explanation = generateExplanation harmIndex emotionScores intentAnalysis
                          truthVerification
     in \<lparr>harmIndex = harmIndex,
         riskLevel = riskLevel,
         uncertainty = uncertainty,
         emotionScores = emotionScores,
         intentAnalysis = intentAnalysis,
         truthVerification = truthVerification,
         historicalContext = \<lparr>pastOutcomes = pastOutcomes\<rparr>,
         cnnHarmScore = HarmIndexInput.cnnHarmScore input,
         explanation = explanation\<rparr>)"

section \<open>The handler of \<^verbatim>\<open>POST /analyze\<close> (\<^verbatim>\<open>analyze.ts\<close>, lines 16-121)\<close>

text \<open>The response data: the assessment spread into an object with three more fields.
  \<^verbatim>\<open>llmExplanation\<close> is \<^verbatim>\<open>null\<close> (\<open>None\<close>) when the enrichment is not available.\<close>

record AnalysisData = HarmAssessment +
  cnnBertResult :: CNNBertResult
  timeseriesData :: TimeSeriesData
  llmExplanation :: "LLMExplanation option"

text \<open>The JSON body sent back, \<^verbatim>\<open>{success: false, error}\<close> or \<^verbatim>\<open>{success: true, data}\<close>,
  and the response with its status code (200 when the handler sets none).\<close>

datatype ResponseBody = Failure string | Success AnalysisData

record HttpResponse =
  status :: nat
  body :: ResponseBody

text \<open>What an \<^verbatim>\<open>axios.post\<close> resolves to. \<open>data = None\<close> is a response whose
  \<^verbatim>\<open>data\<close> is falsy. A call that rejects (network error, timeout, non-2xx status) is
  the outcome \<open>None\<close> of the service function: the handler's \<^verbatim>\<open>.catch(() => null)\<close>
  and its \<^verbatim>\<open>try/catch\<close> around the enrichment call turn the rejection into
  \<^verbatim>\<open>null\<close>.\<close>

datatype 'a AxiosResponse = AxiosResponse (data: "'a option")

text \<open>The six services of the route's service table, each a function of the payload posted
  to it.
  The enrichment service receives the text, the computed index and tier, and the three
  signals.\<close>

record Services =
  emotion :: "string \<Rightarrow> EmotionScores AxiosResponse option"
  intent :: "string \<Rightarrow> IntentAnalysis AxiosResponse option"
  rag :: "string \<Rightarrow> TruthVerification AxiosResponse option"
  cnnBert :: "string \<Rightarrow> CNNBertResult AxiosResponse option"
  llm :: "string \<Rightarrow> rat \<Rightarrow> Level \<Rightarrow> EmotionScores \<Rightarrow> IntentAnalysis \<Rightarrow> TruthVerification
            \<Rightarrow> LLMExplanation AxiosResponse option"
  timeseries :: "string \<Rightarrow> TimeSeriesData AxiosResponse option"

text \<open>The calls the handler issues, recorded in the order it issues them.\<close>

datatype Call =
    PostEmotion string
  | PostIntent string
  | PostRag string
  | PostCnnBert string
  | PostTimeseries string
  | PostLlm string rat Level EmotionScores IntentAnalysis TruthVerification

text \<open>Truthiness and \<^verbatim>\<open>typeof\<close> of a run-time value.\<close>

fun truthy :: "JsValue \<Rightarrow> bool" where
  "truthy JUndefined = False"
| "truthy JNull = False"
| "truthy (JBoolean b) = b"
| "truthy (JNumber n) = (n \<noteq> 0)"
| "truthy (JString s) = (s \<noteq> [])"
| "truthy (JArray xs) = True"
| "truthy (JObject kvs) = True"

fun typeof :: "JsValue \<Rightarrow> string" where
  "typeof JUndefined = ''undefined''"
| "typeof JNull = ''object''"
| "typeof (JBoolean b) = ''boolean''"
| "typeof (JNumber n) = ''number''"
| "typeof (JString s) = ''string''"
| "typeof (JArray xs) = ''object''"
| "typeof (JObject kvs) = ''object''"

text \<open>\<^verbatim>\<open>response?.data || fallback\<close>: the fallback is taken when the call gave
  \<^verbatim>\<open>null\<close> or the response has no data.\<close>

definition dataOr :: "'a AxiosResponse option \<Rightarrow> 'a \<Rightarrow> 'a" where
  "dataOr response fallback =
     (case response of
        None \<Rightarrow> fallback
      | Some r \<Rightarrow> (case data r of None \<Rightarrow> fallback | Some d \<Rightarrow> d))"

text \<open>The body of the handler once the text has passed the check (lines 27-113). The
  five calls of \<^verbatim>\<open>Promise.all\<close> are issued in the order of the array; none depends on
  another. The enrichment call follows \<open>computeHarmIndex\<close>. The calls to
  \<^verbatim>\<open>console.log\<close> are left out.\<close>

definition runAnalysis :: "Services \<Rightarrow> string \<Rightarrow> Call list \<times> HttpResponse" where
  "runAnalysis services text =
    (let emotionResponse = emotion services text;
         intentResponse = intent services text;
         ragResponse = rag services text;
         cnnResponse = cnnBert services text;
         timeseriesResponse = timeseries services text;
         emotionScores = dataOr emotionResponse
           \<lparr>anger = 0.1, fear = 0.1, joy = 0.2, sadness = 0.1, neutral = 0.5\<rparr>;
         intentAnalysis = dataOr intentResponse
           \<lparr>type = Informational, hasExplicitCTA = False, hasImplicitCTA = False,
            dogWhistleProbability = 0.1\<rparr>;
         truthVerification = dataOr ragResponse
           \<lparr>similarityToFalseNarratives = 0.2, evidenceConfidence = Medium,
            contradictorySources = False, similarClaims = []\<rparr>;
         cnnBertResult = dataOr cnnResponse
           \<lparr>harm_score = Some 0.3, confidence = 0.5, bert_features = [], cnn_patterns = []\<rparr>;
         timeseriesData = dataOr timeseriesResponse
           \<lparr>detected_categories = [], trends = [],
            historical_context = ''No historical data available'',
            risk_forecast = ''Unable to forecast'', similar_incidents = []\<rparr>;
         cnnHarmScore = (case harm_score cnnBertResult of None \<Rightarrow> 0 | Some s \<Rightarrow> s);
         harmAssessment = computeHarmIndex
           \<lparr>text' = text, emotionScores = emotionScores, intentAnalysis = intentAnalysis,
            truthVerification = truthVerification, cnnHarmScore = Some cnnHarmScore\<rparr>;
         llmResponse = llm services text (HarmAssessment.harmIndex harmAssessment)
           (riskLevel harmAssessment) emotionScores intentAnalysis truthVerification;
         llmExplanation = (case llmResponse of None \<Rightarrow> None | Some r \<Rightarrow> data r)
     in ([PostEmotion text, PostIntent text, PostRag text, PostCnnBert text,
          PostTimeseries text,
          PostLlm text (HarmAssessment.harmIndex harmAssessment) (riskLevel harmAssessment)
            emotionScores intentAnalysis truthVerification],
         \<lparr>status = 200,
          body = Success (HarmAssessment.extend harmAssessment
            (AnalysisData.fields cnnBertResult timeseriesData llmExplanation))\<rparr>))"

text \<open>The handler. Its argument is the \<^verbatim>\<open>text\<close> property of the request body
  (\<open>JUndefined\<close> when the body has none). The last branch stands for the \<^verbatim>\<open>catch\<close>
  of the handler: past the check the value is a string, and no modelled operation
  throws.\<close>

definition analyze :: "Services \<Rightarrow> JsValue \<Rightarrow> Call list \<times> HttpResponse" where
  "analyze services text =
    (if \<not> truthy text \<or> typeof text \<noteq> ''string''
     then ([], \<lparr>status = 400, body = Failure ''Text is required and must be a string''\<rparr>)
     else (case text of
             JString s \<Rightarrow> runAnalysis services s
           | _ \<Rightarrow> ([], \<lparr>status = 500, body = Failure ''Internal server error during analysis''\<rparr>)))"

section \<open>The formulas and clauses of the specification\<close>

text \<open>Section 4.2 of the specification, followed word by word and read in exact
  arithmetic, to be compared with \<open>computeHarmIndex\<close>.\<close>

definition spec_emotionVolatility :: "EmotionScores \<Rightarrow> rat" where
  "spec_emotionVolatility e = (anger e * 1.2 + fear e * 1.1) / 2"

fun spec_baseIntentRisk :: "IntentType \<Rightarrow> rat" where
  "spec_baseIntentRisk Informational = 0.10"
| "spec_baseIntentRisk Persuasive = 0.40"
| "spec_baseIntentRisk Action_oriented = 0.60"
| "spec_baseIntentRisk Alarmist = 0.75"
| "spec_baseIntentRisk Inciting = 0.90"

definition spec_ctaBonus :: "IntentAnalysis \<Rightarrow> rat" where
  "spec_ctaBonus i = (if hasExplicitCTA i then 0.15 else if hasImplicitCTA i then 0.10 else 0)"

definition spec_intentRisk :: "IntentAnalysis \<Rightarrow> rat" where
  "spec_intentRisk i =
     min 1 (spec_baseIntentRisk (type i) + spec_ctaBonus i + dogWhistleProbability i * 0.20)"

fun spec_confidenceLookup :: "Level \<Rightarrow> rat" where
  "spec_confidenceLookup High = 0.10"
| "spec_confidenceLookup Medium = 0.50"
| "spec_confidenceLookup Low = 0.80"

definition spec_truthUncertainty :: "TruthVerification \<Rightarrow> rat" where
  "spec_truthUncertainty t =
     min 1 (spec_confidenceLookup (evidenceConfidence t)
            + (if contradictorySources t then 0.15 else 0))"

definition spec_patternHarmProbability :: "rat option \<Rightarrow> rat" where
  "spec_patternHarmProbability p = (case p of None \<Rightarrow> 0 | Some s \<Rightarrow> s)"

definition spec_compositeScore :: "HarmIndexInput \<Rightarrow> int" where
  "spec_compositeScore input =
     round (spec_emotionVolatility (HarmIndexInput.emotionScores input) * 20
            + spec_intentRisk (HarmIndexInput.intentAnalysis input) * 25
            + similarityToFalseNarratives (HarmIndexInput.truthVerification input) * 20
            + spec_truthUncertainty (HarmIndexInput.truthVerification input) * 15
            + spec_patternHarmProbability (HarmIndexInput.cnnHarmScore input) * 20)"

definition spec_uncertainty :: "HarmIndexInput \<Rightarrow> int" where
  "spec_uncertainty input =
     10 + round (spec_emotionVolatility (HarmIndexInput.emotionScores input) * 5
                 + spec_truthUncertainty (HarmIndexInput.truthVerification input) * 5)"

text \<open>Section 4.2 of the specification again, every operation now that of binary64
  arithmetic, in the order in which the formulas are written, and every decimal the
  binary64 number nearest to it.\<close>

definition spec64_emotionVolatility :: "EmotionScores \<Rightarrow> rat" where
  "spec64_emotionVolatility e =
     fdiv (fadd (fmul (binary64 (anger e)) (binary64 1.2))
                (fmul (binary64 (fear e)) (binary64 1.1))) 2"

fun spec64_baseIntentRisk :: "IntentType \<Rightarrow> rat" where
  "spec64_baseIntentRisk Informational = binary64 0.10"
| "spec64_baseIntentRisk Persuasive = binary64 0.40"
| "spec64_baseIntentRisk Action_oriented = binary64 0.60"
| "spec64_baseIntentRisk Alarmist = binary64 0.75"
| "spec64_baseIntentRisk Inciting = binary64 0.90"

definition spec64_ctaBonus :: "IntentAnalysis \<Rightarrow> rat" where
  "spec64_ctaBonus i =
     (if hasExplicitCTA i then binary64 0.15 else if hasImplicitCTA i then binary64 0.10 else 0)"

definition spec64_intentRisk :: "IntentAnalysis \<Rightarrow> rat" where
  "spec64_intentRisk i =
     min 1 (fadd (fadd (spec64_baseIntentRisk (type i)) (spec64_ctaBonus i))
                 (fmul (binary64 (dogWhistleProbability i)) (binary64 0.20)))"

fun spec64_confidenceLookup :: "Level \<Rightarrow> rat" where
  "spec64_confidenceLookup High = binary64 0.10"
| "spec64_confidenceLookup Medium = binary64 0.50"
| "spec64_confidenceLookup Low = binary64 0.80"

definition spec64_truthUncertainty :: "TruthVerification \<Rightarrow> rat" where
  "spec64_truthUncertainty t =
     min 1 (if contradictorySources t
            then fadd (spec64_confidenceLookup (evidenceConfidence t)) (binary64 0.15)
            else spec64_confidenceLookup (evidenceConfidence t))"

definition spec64_patternHarmProbability :: "rat option \<Rightarrow> rat" where
  "spec64_patternHarmProbability p = (case p of None \<Rightarrow> 0 | Some s \<Rightarrow> binary64 s)"

definition spec64_compositeScore :: "HarmIndexInput \<Rightarrow> int" where
  "spec64_compositeScore input =
     round (fadd (fadd (fadd (fadd
       (fmul (spec64_emotionVolatility (HarmIndexInput.emotionScores input)) 20)
       (fmul (spec64_intentRisk (HarmIndexInput.intentAnalysis input)) 25))
       (fmul (binary64 (similarityToFalseNarratives (HarmIndexInput.truthVerification input)))
             20))
       (fmul (spec64_truthUncertainty (HarmIndexInput.truthVerification input)) 15))
       (fmul (spec64_patternHarmProbability (HarmIndexInput.cnnHarmScore input)) 20))"

definition spec64_uncertainty :: "HarmIndexInput \<Rightarrow> rat" where
  "spec64_uncertainty input =
     fadd 10 (of_int (round (fadd
       (fmul (spec64_emotionVolatility (HarmIndexInput.emotionScores input)) 5)
       (fmul (spec64_truthUncertainty (HarmIndexInput.truthVerification input)) 5))))"

text \<open>Section 4.4 of the specification: the clauses of the narrative in their fixed order,
  and when each one is due. The three intensity clauses are the tiers of one signal, the
  two call-to-action clauses and the two similarity clauses likewise; within a tier group
  the higher tier wins.\<close>

datatype Clause =
    HighIntensity | ModerateIntensity | LowIntensity
  | ExplicitCTA | ImplicitCTA
  | DogWhistle
  | HighSimilarity | ModerateSimilarity
  | Contradiction

fun clauseText :: "Clause \<Rightarrow> string" where
  "clauseText HighIntensity =
     ''The statement is conveyed with **high emotional intensity** (anger and/or fear)''"
| "clauseText ModerateIntensity = ''The statement shows **moderate emotional intensity**''"
| "clauseText LowIntensity = ''The statement has **low emotional intensity**''"
| "clauseText ExplicitCTA = ''It includes **explicit calls to action**''"
| "clauseText ImplicitCTA = ''It includes **implicit calls to action**''"
| "clauseText DogWhistle = ''Potential **coded language or dog-whistles** detected''"
| "clauseText HighSimilarity = ''It shows **high similarity to known false narratives**''"
| "clauseText ModerateSimilarity = ''It shows **moderate similarity to debunked claims**''"
| "clauseText Contradiction =
     ''Current verified sources **contradict or do not support** the claim''"




section \<open>Example inputs\<close>


definition quietIntent :: IntentAnalysis where
  "quietIntent = \<lparr>type = Informational, hasExplicitCTA = False, hasImplicitCTA = False,
                   dogWhistleProbability = 0\<rparr>"

definition quietTruth :: TruthVerification where
  "quietTruth = \<lparr>similarityToFalseNarratives = 0, evidenceConfidence = High,
                  contradictorySources = False, similarClaims = []\<rparr>"

text \<open>End-to-end scenario C of the specification, section 8: fear 0.5 and the other
  emotions low, intent Action-oriented with an implicit call to action and dog-whistle
  probability 0.7, similarity 0.3 with confidence Medium. What the scenario leaves open is
  filled in plainly: no explicit call to action, no contradicting source, no pattern
  score.\<close>

definition scenarioC :: HarmIndexInput where
  "scenarioC =
     \<lparr>text' = ''Everyone should stock up before it is too late'',
      emotionScores = \<lparr>anger = 0.1, fear = 0.5, joy = 0.1, sadness = 0.1, neutral = 0.2\<rparr>,
      intentAnalysis = \<lparr>type = Action_oriented, hasExplicitCTA = False, hasImplicitCTA = True,
                        dogWhistleProbability = 0.7\<rparr>,
      truthVerification = \<lparr>similarityToFalseNarratives = 0.3, evidenceConfidence = Medium,
                           contradictorySources = False, similarClaims = []\<rparr>,
      cnnHarmScore = None\<rparr>"

text \<open>Inputs that land on the tier boundaries: no emotion, similarity 1, and the intent,
  confidence and pattern score chosen by the caller.\<close>

definition tierProbe :: "IntentType \<Rightarrow> bool \<Rightarrow> Level \<Rightarrow> rat \<Rightarrow> HarmIndexInput" where
  "tierProbe ty cta conf p =
     \<lparr>text' = ''probe'',
      emotionScores = \<lparr>anger = 0, fear = 0, joy = 0, sadness = 0, neutral = 1\<rparr>,
      intentAnalysis = \<lparr>type = ty, hasExplicitCTA = cta, hasImplicitCTA = False,
                        dogWhistleProbability = 0\<rparr>,
      truthVerification = \<lparr>similarityToFalseNarratives = 1, evidenceConfidence = conf,
                           contradictorySources = False, similarClaims = []\<rparr>,
      cnnHarmScore = Some p\<rparr>"

text \<open>An input whose weighted sum is 30.5 in exact arithmetic: no anger, fear 0.5,
  Action-oriented with an implicit call to action and dog-whistle probability 1,
  similarity 0.05, confidence High.\<close>

definition scoreTieProbe :: HarmIndexInput where
  "scoreTieProbe =
     \<lparr>text' = ''probe'',
      emotionScores = \<lparr>anger = 0, fear = 0.5, joy = 0, sadness = 0, neutral = 0.5\<rparr>,
      intentAnalysis = \<lparr>type = Action_oriented, hasExplicitCTA = False, hasImplicitCTA = True,
                        dogWhistleProbability = 1\<rparr>,
      truthVerification = \<lparr>similarityToFalseNarratives = 0.05, evidenceConfidence = High,
                           contradictorySources = False, similarClaims = []\<rparr>,
      cnnHarmScore = None\<rparr>"

text \<open>An input whose uncertainty sum is 6.5 in exact arithmetic: anger 0.8425, fear 0.99,
  confidence High with a contradicting source.\<close>

definition uncertaintyTieProbe :: HarmIndexInput where
  "uncertaintyTieProbe =
     \<lparr>text' = ''probe'',
      emotionScores = \<lparr>anger = 0.8425, fear = 0.99, joy = 0, sadness = 0, neutral = 0\<rparr>,
      intentAnalysis = \<lparr>type = Informational, hasExplicitCTA = False, hasImplicitCTA = False,
                        dogWhistleProbability = 0\<rparr>,
      truthVerification = \<lparr>similarityToFalseNarratives = 0, evidenceConfidence = High,
                           contradictorySources = True, similarClaims = []\<rparr>,
      cnnHarmScore = None\<rparr>"

text \<open>All six services down: every call is rejected.\<close>

definition unreachableServices :: Services where
  "unreachableServices =
     \<lparr>emotion = (\<lambda>text. None), intent = (\<lambda>text. None), rag = (\<lambda>text. None),
      cnnBert = (\<lambda>text. None), llm = (\<lambda>text h r e i t. None),
      timeseries = (\<lambda>text. None)\<rparr>"

text \<open>The three clauses on emotional intensity.\<close>

definition intensityClauses :: "string list" where
  "intensityClauses = map clauseText [HighIntensity, ModerateIntensity, LowIntensity]"

text \<open>The number of places at which the string \<open>pat\<close> occurs in the string \<open>s\<close>.\<close>

definition occurrences :: "string \<Rightarrow> string \<Rightarrow> nat" where
  "occurrences pat s = length (filter (prefix pat) (suffixes s))"

section \<open>Auxiliary lemmas\<close>

subsection \<open>Rounding to binary64\<close>

lemma rte_cases:
  "roundTiesToEven x = \<lfloor>x\<rfloor> \<and> x - of_int \<lfloor>x\<rfloor> \<le> 1 / 2
   \<or> roundTiesToEven x = \<lfloor>x\<rfloor> + 1 \<and> 1 / 2 \<le> x - of_int \<lfloor>x\<rfloor>"
  by (auto simp: roundTiesToEven_def Let_def)

lemma rte_of_int: "roundTiesToEven (of_int n) = n"
  by (simp add: roundTiesToEven_def)

lemma rte_mono:
  assumes "x \<le> y"
  shows "roundTiesToEven x \<le> roundTiesToEven y"
proof (cases "\<lfloor>x\<rfloor> = \<lfloor>y\<rfloor>")
  case True
  then show ?thesis
    using assms by (auto simp: roundTiesToEven_def Let_def)
next
  case False
  then have "\<lfloor>x\<rfloor> + 1 \<le> \<lfloor>y\<rfloor>"
    using floor_mono [OF assms] by linarith
  moreover have "roundTiesToEven x \<le> \<lfloor>x\<rfloor> + 1"
    using rte_cases [of x] by linarith
  moreover have "\<lfloor>y\<rfloor> \<le> roundTiesToEven y"
    using rte_cases [of y] by linarith
  ultimately show ?thesis by linarith
qed

lemma rte_minus: "roundTiesToEven (- x) = - roundTiesToEven x"
proof (cases "x \<in> \<int>")
  case True
  then obtain n where "x = of_int n" by (auto elim: Ints_cases)
  then show ?thesis
    by (metis of_int_minus rte_of_int)
next
  case False
  then have ne: "x \<noteq> of_int \<lfloor>x\<rfloor>"
    by (metis Ints_of_int)
  then have f: "\<lfloor>- x\<rfloor> = - \<lfloor>x\<rfloor> - 1"
    by (simp add: ceiling_altdef floor_minus)
  show ?thesis
    unfolding roundTiesToEven_def Let_def f
    using ne by (auto simp: algebra_simps)
qed

lemma exponent_bounds:
  assumes "0 < x"
  shows "2 powi (exponent x) \<le> x" and "x < 2 powi (exponent x + 1)"
proof -
  show "2 powi (exponent x) \<le> x"
  proof (cases "1 \<le> x")
    case True
    then have n: "0 < \<lfloor>x\<rfloor>" by simp
    have b: "1 \<le> bitlen \<lfloor>x\<rfloor>"
      using n by (simp add: bitlen_alt_def)
    have "(2::int) ^ nat (bitlen \<lfloor>x\<rfloor> - 1) \<le> \<lfloor>x\<rfloor>"
      using bitlen_bounds [OF n] by simp
    then have "(2::rat) ^ nat (bitlen \<lfloor>x\<rfloor> - 1) \<le> of_int \<lfloor>x\<rfloor>"
      by (metis of_int_le_iff of_int_numeral of_int_power)
    also have "\<dots> \<le> x" by simp
    finally show ?thesis
      using True b by (simp add: exponent_def power_int_def)
  next
    case False
    with assms have x1: "x < 1" by simp
    let ?c = "\<lceil>1 / x\<rceil>"
    let ?k = "bitlen (?c - 1)"
    have "1 < 1 / x" using assms x1 by simp
    then have c: "0 < ?c - 1" by (simp add: less_ceiling_iff)
    have "?c - 1 < 2 ^ nat ?k"
      using bitlen_bounds [OF c] by simp
    then have "?c \<le> 2 ^ nat ?k" by simp
    then have "of_int ?c \<le> (2::rat) ^ nat ?k"
      by (metis of_int_le_iff of_int_numeral of_int_power)
    moreover have "1 / x \<le> of_int ?c" by simp
    ultimately have "1 / x \<le> 2 ^ nat ?k" by linarith
    then have "1 / 2 ^ nat ?k \<le> x"
      using assms by (simp add: field_simps)
    moreover have "1 \<le> ?k" using c by (simp add: bitlen_alt_def)
    ultimately show ?thesis
      using False by (simp add: exponent_def power_int_def field_simps)
  qed
  show "x < 2 powi (exponent x + 1)"
  proof (cases "1 \<le> x")
    case True
    then have n: "0 < \<lfloor>x\<rfloor>" by simp
    have b: "1 \<le> bitlen \<lfloor>x\<rfloor>"
      using n by (simp add: bitlen_alt_def)
    have "\<lfloor>x\<rfloor> < 2 ^ nat (bitlen \<lfloor>x\<rfloor>)"
      using bitlen_bounds [OF n] by simp
    then have "\<lfloor>x\<rfloor> + 1 \<le> 2 ^ nat (bitlen \<lfloor>x\<rfloor>)" by simp
    then have "of_int (\<lfloor>x\<rfloor> + 1) \<le> (2::rat) ^ nat (bitlen \<lfloor>x\<rfloor>)"
      by (metis of_int_le_iff of_int_numeral of_int_power)
    moreover have "x < of_int (\<lfloor>x\<rfloor> + 1)"
      using floor_correct [of x] by simp
    ultimately have "x < 2 ^ nat (bitlen \<lfloor>x\<rfloor>)" by linarith
    then show ?thesis
      using True b by (simp add: exponent_def power_int_def)
  next
    case False
    with assms have x1: "x < 1" by simp
    let ?c = "\<lceil>1 / x\<rceil>"
    let ?k = "bitlen (?c - 1)"
    have "1 < 1 / x" using assms x1 by simp
    then have c: "0 < ?c - 1" by (simp add: less_ceiling_iff)
    have k: "1 \<le> ?k" using c by (simp add: bitlen_alt_def)
    have "2 ^ nat (?k - 1) \<le> ?c - 1"
      using bitlen_bounds [OF c] by simp
    then have "(2::rat) ^ nat (?k - 1) \<le> of_int (?c - 1)"
      by (metis of_int_le_iff of_int_numeral of_int_power)
    moreover have "of_int (?c - 1) < 1 / x"
      using ceiling_correct [of "1 / x"] by simp
    ultimately have "2 ^ nat (?k - 1) < 1 / x" by linarith
    then have "x < 1 / 2 ^ nat (?k - 1)"
      using assms by (simp add: field_simps)
    then show ?thesis
      using False k by (simp add: exponent_def power_int_def nat_diff_distrib field_simps)
  qed
qed

lemma pow2_pos: "0 < (2::rat) powi k"
  by simp

lemma pow2_exp_less: "(2::rat) powi a < 2 powi b \<Longrightarrow> a < b"
  by (metis linorder_not_less one_le_numeral power_int_increasing)

lemma pow2_split: "(2::rat) powi e = 2 ^ n * 2 powi (e - int n)"
  using power_int_add [of "2::rat" "int n" "e - int n"] by simp

lemma exponent_mono:
  assumes "0 < x" "x \<le> y"
  shows "exponent x \<le> exponent y"
proof -
  have "2 powi (exponent x) \<le> x" using exponent_bounds(1) [OF assms(1)] .
  also have "x \<le> y" by fact
  also have "y < 2 powi (exponent y + 1)"
    using exponent_bounds(2) [of y] assms by simp
  finally have "exponent x < exponent y + 1" by (rule pow2_exp_less)
  then show ?thesis by simp
qed

lemma binary64_minus: "binary64 (- x) = - binary64 x"
  by (simp add: binary64_def Let_def rte_minus)

lemma rte_nonneg: "0 \<le> x \<Longrightarrow> 0 \<le> roundTiesToEven x"
  using rte_mono [of 0 x] rte_of_int [of 0] by simp

lemma binary64_nonneg: "0 \<le> x \<Longrightarrow> 0 \<le> binary64 x"
  by (simp add: binary64_def Let_def rte_nonneg)

lemma binary64_mono_pos:
  assumes "0 < x" "x \<le> y"
  shows "binary64 x \<le> binary64 y"
proof -
  let ?qx = "max (exponent x - 52) (- 1074)"
  let ?qy = "max (exponent y - 52) (- 1074)"
  have y: "0 < y" using assms by simp
  have fx: "binary64 x = of_int (roundTiesToEven (x / 2 powi ?qx)) * 2 powi ?qx"
    using assms(1) by (simp add: binary64_def Let_def)
  have fy: "binary64 y = of_int (roundTiesToEven (y / 2 powi ?qy)) * 2 powi ?qy"
    using y by (simp add: binary64_def Let_def)
  have qle: "?qx \<le> ?qy"
    using exponent_mono [OF assms] by simp
  show ?thesis
  proof (cases "?qx = ?qy")
    case True
    have "x / 2 powi ?qy \<le> y / 2 powi ?qy"
      using assms(2) by (simp add: divide_right_mono)
    then have "roundTiesToEven (x / 2 powi ?qy) \<le> roundTiesToEven (y / 2 powi ?qy)"
      by (rule rte_mono)
    then have "(of_int (roundTiesToEven (x / 2 powi ?qy)) :: rat)
                 \<le> of_int (roundTiesToEven (y / 2 powi ?qy))"
      by simp
    then show ?thesis
      unfolding fx fy True by (simp add: mult_right_mono)
  next
    case False
    with qle have lt: "?qx < ?qy" by linarith
    then have qy: "?qy = exponent y - 52" and ex: "exponent x < exponent y"
      by linarith+
    let ?n = "nat (exponent y - ?qx)"
    have n: "0 \<le> exponent y - ?qx" using lt qy by simp
    have "x < 2 powi (exponent x + 1)"
      using exponent_bounds(2) [OF assms(1)] .
    also have "\<dots> \<le> 2 powi (exponent y)"
      using ex by (simp add: power_int_increasing)
    finally have xb: "x \<le> 2 powi (exponent y)" by simp
    have split: "(2::rat) powi (exponent y) = 2 ^ ?n * 2 powi ?qx"
      using n pow2_split [of "exponent y" ?n] by simp
    have "x / 2 powi ?qx \<le> 2 ^ ?n"
      using xb unfolding split by (simp add: field_simps)
    also have "(2::rat) ^ ?n = of_int (2 ^ ?n)" by simp
    finally have "roundTiesToEven (x / 2 powi ?qx) \<le> roundTiesToEven (of_int (2 ^ ?n))"
      by (rule rte_mono)
    then have "roundTiesToEven (x / 2 powi ?qx) \<le> 2 ^ ?n"
      unfolding rte_of_int .
    then have "(of_int (roundTiesToEven (x / 2 powi ?qx)) :: rat) \<le> 2 ^ ?n"
      by (metis of_int_le_iff of_int_numeral of_int_power)
    then have "binary64 x \<le> 2 ^ ?n * 2 powi ?qx"
      unfolding fx by (simp add: mult_right_mono)
    then have bx: "binary64 x \<le> 2 powi (exponent y)"
      unfolding split .
    define N :: nat where "N = 52"
    have qyN: "?qy = exponent y - int N"
      unfolding qy N_def by simp
    have split': "(2::rat) powi (exponent y) = 2 ^ N * 2 powi ?qy"
      unfolding qyN by (rule pow2_split)
    have "2 powi (exponent y) \<le> y"
      using exponent_bounds(1) [OF y] .
    then have "2 ^ N \<le> y / 2 powi ?qy"
      unfolding split' by (simp add: field_simps)
    also have "(2::rat) ^ N = of_int (2 ^ N)" by simp
    finally have "roundTiesToEven (of_int (2 ^ N)) \<le> roundTiesToEven (y / 2 powi ?qy)"
      by (rule rte_mono)
    then have "2 ^ N \<le> roundTiesToEven (y / 2 powi ?qy)"
      unfolding rte_of_int .
    then have "(2::rat) ^ N \<le> of_int (roundTiesToEven (y / 2 powi ?qy))"
      by (metis of_int_le_iff of_int_numeral of_int_power)
    then have "2 ^ N * 2 powi ?qy \<le> binary64 y"
      unfolding fy by (simp add: mult_right_mono)
    then have "2 powi (exponent y) \<le> binary64 y"
      unfolding split' .
    with bx show ?thesis by linarith
  qed
qed

lemma binary64_mono:
  assumes "x \<le> y"
  shows "binary64 x \<le> binary64 y"
proof -
  consider "0 < x" | "x \<le> 0" "0 \<le> y" | "y < 0" by linarith
  then show ?thesis
  proof cases
    case 1
    then show ?thesis using assms by (rule binary64_mono_pos)
  next
    case 2
    have "binary64 x \<le> 0"
      using binary64_nonneg [of "- x"] 2(1) by (simp add: binary64_minus)
    moreover have "0 \<le> binary64 y"
      using 2(2) by (rule binary64_nonneg)
    ultimately show ?thesis by linarith
  next
    case 3
    have "binary64 (- y) \<le> binary64 (- x)"
      using 3 assms by (intro binary64_mono_pos) simp_all
    then show ?thesis by (simp add: binary64_minus)
  qed
qed

lemma rte_abs_le:
  assumes "\<bar>x\<bar> \<le> of_int n"
  shows "\<bar>roundTiesToEven x\<bar> \<le> n"
proof -
  have "roundTiesToEven x \<le> roundTiesToEven (of_int n)"
    using assms by (intro rte_mono) linarith
  moreover have "roundTiesToEven (of_int (- n)) \<le> roundTiesToEven x"
    using assms by (intro rte_mono) simp
  ultimately show ?thesis
    unfolding rte_of_int by linarith
qed

lemma pow2_exp_le: "(2::rat) powi a \<le> 2 powi b \<Longrightarrow> a \<le> b"
  by (metis linorder_not_less one_less_numeral_iff power_int_strict_increasing semiring_norm(76))

lemma binary64_exact:
  assumes m: "\<bar>m\<bar> < 2 ^ n" and n: "n \<le> 53" and k: "- 1074 \<le> k"
  shows "binary64 (of_int m * 2 powi k) = of_int m * 2 powi k"
proof (cases "m = 0")
  case True
  then show ?thesis by (simp add: binary64_def)
next
  case False
  let ?x = "of_int m * (2::rat) powi k"
  let ?q = "max (exponent \<bar>?x\<bar> - 52) (- 1074)"
  have x0: "?x \<noteq> 0" using False by simp
  have ax: "\<bar>?x\<bar> = of_int \<bar>m\<bar> * 2 powi k"
    by (simp add: abs_mult)
  have pos: "0 < \<bar>?x\<bar>" using x0 by simp
  have "of_int \<bar>m\<bar> < (2::rat) ^ n"
    using m by (metis of_int_less_iff of_int_numeral of_int_power)
  also have "\<dots> \<le> 2 ^ 53"
    using n by (intro power_increasing) simp_all
  finally have "of_int \<bar>m\<bar> < (2::rat) powi 53"
    by simp
  then have "\<bar>?x\<bar> < 2 powi 53 * 2 powi k"
    unfolding ax by (intro mult_strict_right_mono) simp_all
  also have "\<dots> = 2 powi (53 + k)"
    by (simp add: power_int_add)
  finally have "2 powi (exponent \<bar>?x\<bar>) < (2::rat) powi (53 + k)"
    using exponent_bounds(1) [OF pos] by linarith
  then have "exponent \<bar>?x\<bar> < 53 + k" by (rule pow2_exp_less)
  then have qk: "?q \<le> k" using k by simp
  have "(2::rat) powi k = 2 ^ nat (k - ?q) * 2 powi ?q"
    using qk pow2_split [of k "nat (k - ?q)"] by simp
  then have split: "?x = of_int (m * 2 ^ nat (k - ?q)) * 2 powi ?q"
    by simp
  have "?x / 2 powi ?q = of_int (m * 2 ^ nat (k - ?q))"
    by (subst split) simp
  then have "roundTiesToEven (?x / 2 powi ?q) = m * 2 ^ nat (k - ?q)"
    by (simp only: rte_of_int)
  then have "binary64 ?x = of_int (m * 2 ^ nat (k - ?q)) * 2 powi ?q"
    using x0 by (simp only: binary64_def Let_def if_False)
  then show ?thesis
    by (rule trans) (rule split [symmetric])
qed

lemma binary64_pow2: "binary64 (2 ^ n) = 2 ^ n"
  using binary64_exact [of 1 1 "int n"] by simp

lemma binary64_form:
  "\<exists>m k. binary64 x = of_int m * 2 powi k \<and> \<bar>m\<bar> \<le> 2 ^ 53 \<and> - 1074 \<le> k"
proof (cases "x = 0")
  case True
  then have "binary64 x = of_int 0 * 2 powi 0" by (simp add: binary64_def)
  then show ?thesis by (metis abs_zero zero_le_numeral zero_le_power neg_numeral_le_zero)
next
  case False
  let ?e = "exponent \<bar>x\<bar>"
  let ?q = "max (?e - 52) (- 1074)"
  have pos: "0 < \<bar>x\<bar>" using False by simp
  have "\<bar>x\<bar> < 2 powi (?e + 1)"
    using exponent_bounds(2) [OF pos] .
  also have "\<dots> \<le> 2 powi (53 + ?q)"
    by (intro power_int_increasing) simp_all
  also have "\<dots> = 2 ^ 53 * 2 powi ?q"
    using power_int_add [of "2::rat" 53 ?q] by simp
  finally have "\<bar>x\<bar> / 2 powi ?q \<le> 2 ^ 53"
    by (simp add: field_simps)
  then have "\<bar>x / 2 powi ?q\<bar> \<le> of_int (2 ^ 53)"
    by (simp add: abs_divide)
  then have "\<bar>roundTiesToEven (x / 2 powi ?q)\<bar> \<le> 2 ^ 53"
    by (rule rte_abs_le)
  moreover have "binary64 x = of_int (roundTiesToEven (x / 2 powi ?q)) * 2 powi ?q"
    using False by (simp only: binary64_def Let_def if_False)
  moreover have "- 1074 \<le> ?q" by simp
  ultimately show ?thesis by blast
qed

lemma binary64_idem: "binary64 (binary64 x) = binary64 x"
proof -
  obtain m k where f: "binary64 x = of_int m * 2 powi k"
    and m: "\<bar>m\<bar> \<le> 2 ^ 53" and k: "- 1074 \<le> k"
    using binary64_form by blast
  show ?thesis
  proof (cases "\<bar>m\<bar> = 2 ^ 53")
    case False
    with m have "\<bar>m\<bar> < 2 ^ 53" by simp
    from binary64_exact [OF this order_refl k] show ?thesis
      unfolding f .
  next
    case True
    then have mm: "m = 2 ^ 53 \<or> m = - (2 ^ 53)" by linarith
    then have m2: "of_int m * (2::rat) powi k = of_int (m div 2) * 2 powi (k + 1)"
      by (auto simp: power_int_add)
    have "\<bar>m div 2\<bar> < 2 ^ 53"
      using mm by auto
    moreover have "- 1074 \<le> k + 1" using k by simp
    ultimately have "binary64 (of_int (m div 2) * 2 powi (k + 1))
        = of_int (m div 2) * 2 powi (k + 1)"
      by (rule binary64_exact [OF _ order_refl])
    then show ?thesis
      unfolding f m2 .
  qed
qed

lemma binary64_Ints:
  assumes "x \<in> \<int>"
  shows "binary64 x \<in> \<int>"
proof (cases "x = 0")
  case True
  then show ?thesis by (simp add: binary64_def)
next
  case False
  obtain n where x: "x = of_int n" using assms by (auto elim: Ints_cases)
  let ?q = "max (exponent \<bar>x\<bar> - 52) (- 1074)"
  have f: "binary64 x = of_int (roundTiesToEven (x / 2 powi ?q)) * 2 powi ?q"
    using False by (simp only: binary64_def Let_def if_False)
  show ?thesis
  proof (cases "0 \<le> ?q")
    case True
    then have "(2::rat) powi ?q = of_int (2 ^ nat ?q)"
      by (simp add: power_int_def)
    then show ?thesis
      unfolding f by (metis Ints_of_int of_int_mult)
  next
    case q: False
    then have "(2::rat) powi ?q = 1 / 2 ^ nat (- ?q)"
      by (simp add: power_int_def field_simps)
    then have d: "x / 2 powi ?q = of_int (n * 2 ^ nat (- ?q))"
      unfolding x by simp
    have "binary64 x = x"
      unfolding f d rte_of_int using d by (simp add: field_simps)
    then show ?thesis using assms by simp
  qed
qed

lemma binary64_ge_pow2: "2 ^ n \<le> x \<Longrightarrow> 2 ^ n \<le> binary64 x"
  using binary64_mono [of "2 ^ n" x] by (simp add: binary64_pow2)

lemma Math_round_mono: "x \<le> y \<Longrightarrow> Math_round x \<le> Math_round y"
  by (simp add: Math_round_def floor_mono)

lemma Math_round_of_int: "Math_round (of_int k) = of_int k"
proof -
  have "\<lfloor>rat_of_int k + 1 / 2\<rfloor> = k"
    by (rule floor_unique) simp_all
  then show ?thesis by (simp add: Math_round_def)
qed

subsection \<open>The fields of the assessment\<close>

lemma harmIndex_unfold:
  "HarmAssessment.harmIndex (computeHarmIndex input) =
    Math_round
     (fadd (fadd (fadd (fadd
        (fmul (fdiv (fadd (fmul (binary64 (anger (HarmIndexInput.emotionScores input)))
                                (binary64 1.2))
                          (fmul (binary64 (fear (HarmIndexInput.emotionScores input)))
                                (binary64 1.1))) 2) 20)
        (fmul (min 1 (fadd (fadd (intentRiskMap (type (HarmIndexInput.intentAnalysis input)))
                 (if hasExplicitCTA (HarmIndexInput.intentAnalysis input) then binary64 0.15
                  else if hasImplicitCTA (HarmIndexInput.intentAnalysis input)
                       then binary64 0.1 else 0))
                 (fmul (binary64 (dogWhistleProbability (HarmIndexInput.intentAnalysis input)))
                       (binary64 0.2)))) 25))
        (fmul (binary64 (similarityToFalseNarratives (HarmIndexInput.truthVerification input)))
              20))
        (fmul (min 1 (fadd (evidenceConfidenceMap
                       (evidenceConfidence (HarmIndexInput.truthVerification input)))
                 (if contradictorySources (HarmIndexInput.truthVerification input)
                  then binary64 0.15 else 0))) 15))
        (fmul (case HarmIndexInput.cnnHarmScore input of
                 None \<Rightarrow> 0
               | Some s \<Rightarrow> if binary64 s = 0 then 0 else binary64 s) 20))"
  unfolding computeHarmIndex_def Let_def by (simp only: HarmAssessment.simps)

lemma riskLevel_unfold:
  "riskLevel (computeHarmIndex input) =
     (if HarmAssessment.harmIndex (computeHarmIndex input) \<le> 30 then Low
      else if HarmAssessment.harmIndex (computeHarmIndex input) \<le> 60 then Medium
      else High)"
  unfolding computeHarmIndex_def Let_def by (simp only: HarmAssessment.simps)

lemma uncertainty_unfold:
  "uncertainty (computeHarmIndex input) =
    fadd 10 (Math_round
     (fadd (fmul (fdiv (fadd (fmul (binary64 (anger (HarmIndexInput.emotionScores input)))
                                   (binary64 1.2))
                             (fmul (binary64 (fear (HarmIndexInput.emotionScores input)))
                                   (binary64 1.1))) 2) 5)
           (fmul (min 1 (fadd (evidenceConfidenceMap
                          (evidenceConfidence (HarmIndexInput.truthVerification input)))
                    (if contradictorySources (HarmIndexInput.truthVerification input)
                     then binary64 0.15 else 0))) 5)))"
  unfolding computeHarmIndex_def Let_def by (simp only: HarmAssessment.simps)

lemma pastOutcomes_unfold:
  "pastOutcomes (historicalContext (computeHarmIndex input)) =
     generateHistoricalOutcomes (HarmAssessment.harmIndex (computeHarmIndex input))
       (typeName (type (HarmIndexInput.intentAnalysis input)))
       (HarmIndexInput.emotionScores input)"
  unfolding computeHarmIndex_def Let_def
  by (simp only: HarmAssessment.simps HistoricalContext.simps)

lemma explanation_unfold:
  "HarmAssessment.explanation (computeHarmIndex input) =
     generateExplanation (HarmAssessment.harmIndex (computeHarmIndex input))
       (HarmIndexInput.emotionScores input) (HarmIndexInput.intentAnalysis input)
       (HarmIndexInput.truthVerification input)"
  unfolding computeHarmIndex_def Let_def by (simp only: HarmAssessment.simps)

lemma signals_unfold:
  "HarmAssessment.emotionScores (computeHarmIndex input) = HarmIndexInput.emotionScores input"
  "HarmAssessment.intentAnalysis (computeHarmIndex input) = HarmIndexInput.intentAnalysis input"
  "HarmAssessment.truthVerification (computeHarmIndex input)
     = HarmIndexInput.truthVerification input"
  "HarmAssessment.cnnHarmScore (computeHarmIndex input) = HarmIndexInput.cnnHarmScore input"
  unfolding computeHarmIndex_def Let_def by (simp_all only: HarmAssessment.simps)

lemma harmIndex_Ints: "HarmAssessment.harmIndex (computeHarmIndex input) \<in> \<int>"
  unfolding harmIndex_unfold Math_round_def by (rule Ints_of_int)

subsection \<open>The code's tables and bonuses against the specification's\<close>

lemma intentRiskMap_spec64: "intentRiskMap ty = spec64_baseIntentRisk ty"
  by (cases ty) simp_all

lemma evidenceConfidenceMap_spec64: "evidenceConfidenceMap c = spec64_confidenceLookup c"
  by (cases c) simp_all

lemma cnnScore_spec64:
  "(case p of None \<Rightarrow> 0 | Some s \<Rightarrow> if binary64 s = 0 then 0 else binary64 s)
     = spec64_patternHarmProbability p"
  by (simp add: spec64_patternHarmProbability_def split: option.splits)

lemma spec64_intentRisk_code:
  "min 1 (fadd (fadd (intentRiskMap (type i))
                     (if hasExplicitCTA i then binary64 0.15
                      else if hasImplicitCTA i then binary64 0.1 else 0))
               (fmul (binary64 (dogWhistleProbability i)) (binary64 0.2)))
     = spec64_intentRisk i"
proof -
  have cta: "spec64_ctaBonus i
      = (if hasExplicitCTA i then binary64 0.15
         else if hasImplicitCTA i then binary64 0.1 else 0)"
    by (simp add: spec64_ctaBonus_def)
  have dog: "binary64 0.20 = binary64 0.2"
    by simp
  show ?thesis
    unfolding spec64_intentRisk_def cta dog intentRiskMap_spec64 ..
qed

lemma spec64_confidenceLookup_idem:
  "binary64 (spec64_confidenceLookup c) = spec64_confidenceLookup c"
  by (cases c) (simp_all add: binary64_idem)

lemma spec64_truthUncertainty_code:
  "min 1 (fadd (evidenceConfidenceMap (evidenceConfidence t))
               (if contradictorySources t then binary64 0.15 else 0))
     = spec64_truthUncertainty t"
  unfolding spec64_truthUncertainty_def evidenceConfidenceMap_spec64
  by (simp add: fadd_def spec64_confidenceLookup_idem)

subsection \<open>The narrative, clause by clause\<close>

lemma explanationParts_segments:
  "explanationParts e i t =
     [if anger e > 0.6 \<or> fear e > 0.6 then clauseText HighIntensity
      else if anger e > 0.3 \<or> fear e > 0.3 then clauseText ModerateIntensity
      else clauseText LowIntensity]
     @ (if hasExplicitCTA i then [clauseText ExplicitCTA]
        else if hasImplicitCTA i then [clauseText ImplicitCTA] else [])
     @ (if dogWhistleProbability i > 0.6 then [clauseText DogWhistle] else [])
     @ (if similarityToFalseNarratives t > 0.7 then [clauseText HighSimilarity]
        else if similarityToFalseNarratives t > 0.4 then [clauseText ModerateSimilarity]
        else [])
     @ (if contradictorySources t then [clauseText Contradiction] else [])"
  unfolding explanationParts_def Let_def by simp










lemma others_not_intensity:
  "clauseText ExplicitCTA \<notin> set intensityClauses"
  "clauseText ImplicitCTA \<notin> set intensityClauses"
  "clauseText DogWhistle \<notin> set intensityClauses"
  "clauseText HighSimilarity \<notin> set intensityClauses"
  "clauseText ModerateSimilarity \<notin> set intensityClauses"
  "clauseText Contradiction \<notin> set intensityClauses"
  by (simp_all add: intensityClauses_def)

lemma intensity_in:
  "clauseText HighIntensity \<in> set intensityClauses"
  "clauseText ModerateIntensity \<in> set intensityClauses"
  "clauseText LowIntensity \<in> set intensityClauses"
  by (simp_all add: intensityClauses_def)

subsection \<open>Occurrences of a clause in the narrative\<close>

lemma join_Cons: "join sep (p # ps) = p @ concat (map ((@) sep) ps)"
  by (induction ps arbitrary: p) simp_all

lemma occurrences_Nil: "occurrences (c # k) [] = 0"
  by (simp add: occurrences_def)

lemma occurrences_Cons:
  "occurrences pat (x # xs) = (if prefix pat (x # xs) then 1 else 0) + occurrences pat xs"
  by (simp add: occurrences_def)

lemma occurrences_absent: "c \<notin> set s \<Longrightarrow> occurrences (c # k) s = 0"
  by (induction s) (simp_all add: occurrences_Nil occurrences_Cons)

lemma occurrences_skip:
  "c \<notin> set pre \<Longrightarrow> occurrences (c # k) (pre @ s) = occurrences (c # k) s"
  by (induction pre) (simp_all add: occurrences_Cons)

lemma occurrences_single:
  assumes "c \<notin> set pre" and "c \<notin> set mid" and "c \<notin> set rest"
  shows "occurrences (c # k) (pre @ (c # mid) @ rest)
           = (if prefix k (mid @ rest) then 1 else 0)"
proof -
  have "occurrences (c # k) (mid @ rest) = 0"
    using assms(2,3) by (intro occurrences_absent) simp
  then show ?thesis
    using assms(1) by (simp add: occurrences_skip occurrences_Cons)
qed

lemma narrative_shape:
  "\<exists>b rest. b \<in> {HighIntensity, ModerateIntensity, LowIntensity}
     \<and> clauseText b =
         (if anger e > 0.6 \<or> fear e > 0.6
          then ''The statement is conveyed with **high emotional intensity** (anger and/or fear)''
          else if anger e > 0.3 \<or> fear e > 0.3
          then ''The statement shows **moderate emotional intensity**''
          else ''The statement has **low emotional intensity**'')
     \<and> CHR ''T'' \<notin> set rest
     \<and> generateExplanation h e i t = bulletSpace @ clauseText b @ rest"
proof -
  let ?others =
    "(if hasExplicitCTA i then [clauseText ExplicitCTA]
      else if hasImplicitCTA i then [clauseText ImplicitCTA] else [])
     @ (if dogWhistleProbability i > 0.6 then [clauseText DogWhistle] else [])
     @ (if similarityToFalseNarratives t > 0.7 then [clauseText HighSimilarity]
        else if similarityToFalseNarratives t > 0.4 then [clauseText ModerateSimilarity]
        else [])
     @ (if contradictorySources t then [clauseText Contradiction] else [])"
  let ?rest = "concat (map ((@) newlineBulletSpace) ?others)"
  let ?b = "if anger e > 0.6 \<or> fear e > 0.6 then HighIntensity
            else if anger e > 0.3 \<or> fear e > 0.3 then ModerateIntensity
            else LowIntensity"
  have parts: "explanationParts e i t = clauseText ?b # ?others"
    unfolding explanationParts_segments by simp
  have "generateExplanation h e i t = bulletSpace @ clauseText ?b @ ?rest"
    unfolding generateExplanation_def parts join_Cons ..
  moreover have "CHR ''T'' \<notin> set ?rest"
    by (simp add: newlineBulletSpace_def bullet_def)
  moreover have "?b \<in> {HighIntensity, ModerateIntensity, LowIntensity}"
    by simp
  moreover have "clauseText ?b =
         (if anger e > 0.6 \<or> fear e > 0.6
          then ''The statement is conveyed with **high emotional intensity** (anger and/or fear)''
          else if anger e > 0.3 \<or> fear e > 0.3
          then ''The statement shows **moderate emotional intensity**''
          else ''The statement has **low emotional intensity**'')"
    by simp
  ultimately show ?thesis by blast
qed

lemma intensity_head:
  assumes "a \<in> {HighIntensity, ModerateIntensity, LowIntensity}"
  shows "clauseText a = CHR ''T'' # tl (clauseText a)"
    and "CHR ''T'' \<notin> set (tl (clauseText a))"
  using assms by auto

lemma intensity_prefix:
  assumes "a \<in> {HighIntensity, ModerateIntensity, LowIntensity}"
    and "b \<in> {HighIntensity, ModerateIntensity, LowIntensity}"
  shows "prefix (tl (clauseText a)) (tl (clauseText b) @ rest) \<longleftrightarrow> a = b"
  using assms by auto

lemma intensity_occurrences:
  assumes "a \<in> {HighIntensity, ModerateIntensity, LowIntensity}"
    and "b \<in> {HighIntensity, ModerateIntensity, LowIntensity}"
    and "CHR ''T'' \<notin> set rest"
  shows "occurrences (clauseText a) (bulletSpace @ clauseText b @ rest)
           = (if a = b then 1 else 0)"
proof -
  have "occurrences (CHR ''T'' # tl (clauseText a))
          (bulletSpace @ (CHR ''T'' # tl (clauseText b)) @ rest)
        = (if prefix (tl (clauseText a)) (tl (clauseText b) @ rest) then 1 else 0)"
    using intensity_head(2) [OF assms(2)] assms(3)
    by (intro occurrences_single) (simp_all add: bulletSpace_def bullet_def)
  then show ?thesis
    unfolding intensity_head(1) [OF assms(1), symmetric]
      intensity_head(1) [OF assms(2), symmetric]
      intensity_prefix [OF assms(1,2)] .
qed

subsection \<open>The handler\<close>

lemma extend_truncate:
  "HarmAssessment.truncate (HarmAssessment.extend a (AnalysisData.fields c t l)) = a"
  by (simp add: HarmAssessment.defs AnalysisData.defs)

lemma extend_fields:
  "cnnBertResult (HarmAssessment.extend a (AnalysisData.fields c t l)) = c"
  "timeseriesData (HarmAssessment.extend a (AnalysisData.fields c t l)) = t"
  "llmExplanation (HarmAssessment.extend a (AnalysisData.fields c t l)) = l"
  by (simp_all add: HarmAssessment.defs AnalysisData.defs)

lemma extend_sel:
  "HarmAssessment.harmIndex (HarmAssessment.extend a m) = HarmAssessment.harmIndex a"
  "HarmAssessment.emotionScores (HarmAssessment.extend a m) = HarmAssessment.emotionScores a"
  "HarmAssessment.intentAnalysis (HarmAssessment.extend a m) = HarmAssessment.intentAnalysis a"
  "HarmAssessment.truthVerification (HarmAssessment.extend a m)
     = HarmAssessment.truthVerification a"
  "HarmAssessment.cnnHarmScore (HarmAssessment.extend a m) = HarmAssessment.cnnHarmScore a"
  by (simp_all add: HarmAssessment.defs)

lemma dataOr_cases:
  "dataOr response fallback =
     (case response of Some (AxiosResponse (Some d)) \<Rightarrow> d | _ \<Rightarrow> fallback)"
  by (simp add: dataOr_def split: option.splits AxiosResponse.splits)

lemma runAnalysis_response:
  "\<exists>l. snd (runAnalysis services text) =
     \<lparr>status = 200,
      body = Success (HarmAssessment.extend
        (computeHarmIndex
          \<lparr>text' = text,
           emotionScores = dataOr (emotion services text)
             \<lparr>anger = 0.1, fear = 0.1, joy = 0.2, sadness = 0.1, neutral = 0.5\<rparr>,
           intentAnalysis = dataOr (intent services text)
             \<lparr>type = Informational, hasExplicitCTA = False, hasImplicitCTA = False,
              dogWhistleProbability = 0.1\<rparr>,
           truthVerification = dataOr (rag services text)
             \<lparr>similarityToFalseNarratives = 0.2, evidenceConfidence = Medium,
              contradictorySources = False, similarClaims = []\<rparr>,
           cnnHarmScore = Some (case harm_score (dataOr (cnnBert services text)
               \<lparr>harm_score = Some 0.3, confidence = 0.5, bert_features = [],
                cnn_patterns = []\<rparr>)
             of None \<Rightarrow> 0 | Some s \<Rightarrow> s)\<rparr>)
        (AnalysisData.fields
          (dataOr (cnnBert services text)
             \<lparr>harm_score = Some 0.3, confidence = 0.5, bert_features = [],
              cnn_patterns = []\<rparr>)
          (dataOr (timeseries services text)
             \<lparr>detected_categories = [], trends = [],
              historical_context = ''No historical data available'',
              risk_forecast = ''Unable to forecast'', similar_incidents = []\<rparr>)
          l))\<rparr>"
  unfolding runAnalysis_def Let_def snd_conv by (rule exI) (rule refl)

lemma runAnalysis_ok:
  "\<exists>d. snd (runAnalysis services text) = \<lparr>status = 200, body = Success d\<rparr>"
  using runAnalysis_response by blast

lemma analyze_string:
  "s \<noteq> [] \<Longrightarrow> analyze services (JString s) = runAnalysis services s"
  by (simp add: analyze_def)

lemma analyze_rejected:
  "v = JString [] \<or> typeof v \<noteq> ''string'' \<Longrightarrow>
   analyze services v
     = ([], \<lparr>status = 400, body = Failure ''Text is required and must be a string''\<rparr>)"
  by (auto simp: analyze_def)

lemma typeof_string: "typeof v = ''string'' \<Longrightarrow> \<exists>s. v = JString s"
  by (cases v) simp_all

section \<open>The fusion calculator\<close>

text \<open>
  Claim C1, as the specification states it: the composite score is the weighted sum of
  section 4.2, computed exactly and then rounded. This fails on \<open>scoreTieProbe\<close>: the
  exact sum is 30.5 and rounds to 31, the binary64 sum of the program lies just below
  30.5 and the score is 30.
\<close>

theorem computeHarmIndex_score_not_exact:
  "HarmAssessment.harmIndex (computeHarmIndex scoreTieProbe) = 30
   \<and> spec_compositeScore scoreTieProbe = 31
   \<and> HarmAssessment.harmIndex (computeHarmIndex scoreTieProbe)
       \<noteq> of_int (spec_compositeScore scoreTieProbe)"
proof -
  have c: "HarmAssessment.harmIndex (computeHarmIndex scoreTieProbe) = 30"
    unfolding harmIndex_unfold scoreTieProbe_def by code_simp
  have s: "spec_compositeScore scoreTieProbe = 31"
    unfolding scoreTieProbe_def by code_simp
  show ?thesis
    unfolding c s by simp
qed

text \<open>
  Claim C1, amended. For every input, the composite score returned by
  \<open>computeHarmIndex\<close> is the rounded weighted sum of section 4.2 of the specification
  evaluated in binary64 arithmetic: emotion volatility times 20, intent risk times 25,
  historical harm (the similarity to false narratives) times 20, capped truth uncertainty
  times 15 and the pattern harm probability (0 when absent) times 20, with the
  specification's two tables, its call-to-action bonus and its caps at 1, every
  operation rounded to the nearest binary64 number in the order written.
\<close>

theorem computeHarmIndex_score:
  "HarmAssessment.harmIndex (computeHarmIndex input) = of_int (spec64_compositeScore input)"
  unfolding harmIndex_unfold spec64_compositeScore_def Math_round_def round_def
    spec64_intentRisk_code spec64_truthUncertainty_code cnnScore_spec64
    spec64_emotionVolatility_def ..

text \<open>
  Claim C2. The risk tier is Low exactly when the composite score is at most 30, Medium
  exactly when it lies between 31 and 60, and High exactly when it exceeds 60; the score
  is an integer, and the scores 30, 31, 60 and 61 give Low, Medium, Medium and High.
\<close>

theorem computeHarmIndex_riskLevel:
  "HarmAssessment.harmIndex (computeHarmIndex input) \<in> \<int>
   \<and> (riskLevel (computeHarmIndex input) = Low
        \<longleftrightarrow> HarmAssessment.harmIndex (computeHarmIndex input) \<le> 30)
   \<and> (riskLevel (computeHarmIndex input) = Medium
        \<longleftrightarrow> 31 \<le> HarmAssessment.harmIndex (computeHarmIndex input)
            \<and> HarmAssessment.harmIndex (computeHarmIndex input) \<le> 60)
   \<and> (riskLevel (computeHarmIndex input) = High
        \<longleftrightarrow> 60 < HarmAssessment.harmIndex (computeHarmIndex input))
   \<and> (HarmAssessment.harmIndex (computeHarmIndex input) = 30
        \<longrightarrow> riskLevel (computeHarmIndex input) = Low)
   \<and> (HarmAssessment.harmIndex (computeHarmIndex input) = 31
        \<longrightarrow> riskLevel (computeHarmIndex input) = Medium)
   \<and> (HarmAssessment.harmIndex (computeHarmIndex input) = 60
        \<longrightarrow> riskLevel (computeHarmIndex input) = Medium)
   \<and> (HarmAssessment.harmIndex (computeHarmIndex input) = 61
        \<longrightarrow> riskLevel (computeHarmIndex input) = High)"
proof -
  obtain k :: int where k: "HarmAssessment.harmIndex (computeHarmIndex input) = of_int k"
    using harmIndex_Ints [of input] by (auto elim: Ints_cases)
  have r: "riskLevel (computeHarmIndex input) =
            (if k \<le> 30 then Low else if k \<le> 60 then Medium else High)"
    unfolding riskLevel_unfold k by simp
  show ?thesis
    unfolding r k by (simp add: Ints_of_int)
qed

theorem computeHarmIndex_riskLevel_witness:
  "HarmAssessment.harmIndex (computeHarmIndex (tierProbe Informational False High 0.3)) = 30
   \<and> riskLevel (computeHarmIndex (tierProbe Informational False High 0.3)) = Low
   \<and> HarmAssessment.harmIndex (computeHarmIndex (tierProbe Informational False High 0.35)) = 31
   \<and> riskLevel (computeHarmIndex (tierProbe Informational False High 0.35)) = Medium
   \<and> HarmAssessment.harmIndex (computeHarmIndex (tierProbe Inciting True Low 0.15)) = 60
   \<and> riskLevel (computeHarmIndex (tierProbe Inciting True Low 0.15)) = Medium
   \<and> HarmAssessment.harmIndex (computeHarmIndex (tierProbe Inciting True Low 0.2)) = 61
   \<and> riskLevel (computeHarmIndex (tierProbe Inciting True Low 0.2)) = High"
proof -
  have h30: "HarmAssessment.harmIndex (computeHarmIndex (tierProbe Informational False High 0.3)) = 30"
    unfolding harmIndex_unfold tierProbe_def by code_simp
  have h31: "HarmAssessment.harmIndex (computeHarmIndex (tierProbe Informational False High 0.35)) = 31"
    unfolding harmIndex_unfold tierProbe_def by code_simp
  have h60: "HarmAssessment.harmIndex (computeHarmIndex (tierProbe Inciting True Low 0.15)) = 60"
    unfolding harmIndex_unfold tierProbe_def by code_simp
  have h61: "HarmAssessment.harmIndex (computeHarmIndex (tierProbe Inciting True Low 0.2)) = 61"
    unfolding harmIndex_unfold tierProbe_def by code_simp
  show ?thesis
    using h30 h31 h60 h61
      computeHarmIndex_riskLevel [of "tierProbe Informational False High 0.3"]
      computeHarmIndex_riskLevel [of "tierProbe Informational False High 0.35"]
      computeHarmIndex_riskLevel [of "tierProbe Inciting True Low 0.15"]
      computeHarmIndex_riskLevel [of "tierProbe Inciting True Low 0.2"]
    by simp
qed

text \<open>
  Claim C7, as the specification states it: the uncertainty is 10 plus the exactly
  computed and then rounded sum of emotion volatility times 5 and capped truth
  uncertainty times 5. This fails on \<open>uncertaintyTieProbe\<close>: the exact sum is 6.5 and
  gives 17, the binary64 sum of the program lies just below 6.5 and the uncertainty is
  16.
\<close>

theorem computeHarmIndex_uncertainty_not_exact:
  "uncertainty (computeHarmIndex uncertaintyTieProbe) = 16
   \<and> spec_uncertainty uncertaintyTieProbe = 17
   \<and> uncertainty (computeHarmIndex uncertaintyTieProbe)
       \<noteq> of_int (spec_uncertainty uncertaintyTieProbe)"
proof -
  have c: "uncertainty (computeHarmIndex uncertaintyTieProbe) = 16"
    unfolding uncertainty_unfold uncertaintyTieProbe_def by code_simp
  have s: "spec_uncertainty uncertaintyTieProbe = 17"
    unfolding uncertaintyTieProbe_def by code_simp
  show ?thesis
    unfolding c s by simp
qed

text \<open>
  Claim C7, amended. The uncertainty returned by \<open>computeHarmIndex\<close> is 10 plus the
  rounded sum of emotion volatility times 5 and capped truth uncertainty times 5, every
  operation that of binary64 arithmetic; it is an integer; and no upper clamp is applied:
  it exceeds every bound on a suitable input.
\<close>

theorem computeHarmIndex_uncertainty:
  "uncertainty (computeHarmIndex input) = spec64_uncertainty input
   \<and> uncertainty (computeHarmIndex input) \<in> \<int>
   \<and> (\<forall>B. \<exists>input'. B < uncertainty (computeHarmIndex input'))"
proof (intro conjI allI)
  show "uncertainty (computeHarmIndex input) = spec64_uncertainty input"
    unfolding uncertainty_unfold spec64_uncertainty_def Math_round_def round_def
      spec64_truthUncertainty_code spec64_emotionVolatility_def ..
  show "uncertainty (computeHarmIndex input) \<in> \<int>"
    unfolding uncertainty_unfold Math_round_def fadd_def
    by (intro binary64_Ints Ints_add Ints_of_int) simp
next
  fix B :: rat
  obtain n :: nat where "B < of_nat n"
    using reals_Archimedean2 by blast
  moreover have "(of_nat n :: rat) < 2 ^ n"
    by (rule of_nat_less_two_power)
  ultimately have n: "B < 2 ^ n"
    by (rule less_trans)
  let ?input = "\<lparr>text' = [],
      emotionScores = \<lparr>anger = 2 ^ Suc n, fear = 0, joy = 0, sadness = 0, neutral = 0\<rparr>,
      intentAnalysis = quietIntent, truthVerification = quietTruth,
      cnnHarmScore = None\<rparr>"
  have one: "1 \<le> binary64 1.2"
    using binary64_ge_pow2 [of 0 "1.2"] by simp
  have a: "binary64 (2 * 2 ^ n) = 2 * 2 ^ n"
    using binary64_pow2 [of "Suc n"] by simp
  have p1: "2 ^ Suc n \<le> fmul (2 ^ Suc n) (binary64 1.2)"
    unfolding fmul_def using one by (intro binary64_ge_pow2) simp
  have p2: "fmul (binary64 0) (binary64 1.1) = 0"
    by (simp add: fmul_def binary64_def)
  have s: "2 ^ Suc n \<le> fadd (fmul (2 ^ Suc n) (binary64 1.2)) 0"
    unfolding fadd_def using p1 by (intro binary64_ge_pow2) simp
  have ev: "2 ^ n \<le> fdiv (fadd (fmul (2 ^ Suc n) (binary64 1.2)) 0) 2"
    unfolding fdiv_def using s by (intro binary64_ge_pow2) simp
  have "(0::rat) < 2 ^ n" by simp
  with ev have "2 ^ n \<le> fdiv (fadd (fmul (2 ^ Suc n) (binary64 1.2)) 0) 2 * 5"
    by linarith
  then have t1: "2 ^ n \<le> fmul (fdiv (fadd (fmul (2 ^ Suc n) (binary64 1.2)) 0) 2) 5"
    unfolding fmul_def [of _ 5] by (rule binary64_ge_pow2)
  have t2: "0 \<le> fmul (min 1 (fadd (evidenceConfidenceMap High) 0)) 5"
    unfolding fmul_def fadd_def by (intro binary64_nonneg) (simp add: binary64_nonneg)
  have u0: "2 ^ n \<le> fadd (fmul (fdiv (fadd (fmul (2 ^ Suc n) (binary64 1.2)) 0) 2) 5)
                         (fmul (min 1 (fadd (evidenceConfidenceMap High) 0)) 5)"
    unfolding fadd_def [of "fmul _ 5"] using t1 t2 by (intro binary64_ge_pow2) simp
  have r: "2 ^ n \<le> Math_round (fadd (fmul (fdiv (fadd (fmul (2 ^ Suc n) (binary64 1.2)) 0) 2) 5)
                         (fmul (min 1 (fadd (evidenceConfidenceMap High) 0)) 5))"
    using Math_round_mono [OF u0] Math_round_of_int [of "2 ^ n"] by simp
  have "2 ^ n \<le> uncertainty (computeHarmIndex ?input)"
    unfolding uncertainty_unfold fadd_def [of 10]
    using r by (intro binary64_ge_pow2) (simp add: a p2 quietTruth_def)
  with n have "B < uncertainty (computeHarmIndex ?input)" by linarith
  then show "\<exists>input'. B < uncertainty (computeHarmIndex input')" ..
qed

text \<open>
  Claim C9. \<open>computeHarmIndex\<close> hands its input signals on unchanged: the fields
  \<open>emotionScores\<close>, \<open>intentAnalysis\<close>, \<open>truthVerification\<close> and \<open>cnnHarmScore\<close> of
  the assessment are those of the input.
\<close>

theorem computeHarmIndex_frame:
  "HarmAssessment.emotionScores (computeHarmIndex input) = HarmIndexInput.emotionScores input
   \<and> HarmAssessment.intentAnalysis (computeHarmIndex input) = HarmIndexInput.intentAnalysis input
   \<and> HarmAssessment.truthVerification (computeHarmIndex input)
       = HarmIndexInput.truthVerification input
   \<and> HarmAssessment.cnnHarmScore (computeHarmIndex input) = HarmIndexInput.cnnHarmScore input"
  by (simp add: computeHarmIndex_def Let_def)

section \<open>The outcome predictor\<close>

text \<open>
  Claim C4. \<open>generateHistoricalOutcomes\<close> never returns the empty list. Each of the four
  rules (fear above 0.6; anger above 0.6; intent Alarmist or Inciting; intent
  Action-oriented) contributes its entry exactly when its condition holds, in this order,
  the fear entry High when the score exceeds 60 and Medium otherwise, the anger entry High
  when the score exceeds 70 and Medium otherwise, the third always High, the fourth always
  Medium; when no rule fires the result is the single entry
  ('Limited behavioral impact', Low).
\<close>

theorem generateHistoricalOutcomes_rules:
  "generateHistoricalOutcomes h ty e \<noteq> []
   \<and> generateHistoricalOutcomes h ty e =
      (if \<not> fear e > 0.6 \<and> \<not> anger e > 0.6 \<and> \<not> (ty = ''Alarmist'' \<or> ty = ''Inciting'')
          \<and> \<not> ty = ''Action-oriented''
       then [\<lparr>outcome = ''Limited behavioral impact'', probability = Low\<rparr>]
       else (if fear e > 0.6
             then [\<lparr>outcome = ''Panic behavior or anxiety'',
                    probability = (if h > 60 then High else Medium)\<rparr>]
             else [])
          @ (if anger e > 0.6
             then [\<lparr>outcome = ''Social unrest or confrontational behavior'',
                    probability = (if h > 70 then High else Medium)\<rparr>]
             else [])
          @ (if ty = ''Alarmist'' \<or> ty = ''Inciting''
             then [\<lparr>outcome = ''Rapid misinformation spread'', probability = High\<rparr>]
             else [])
          @ (if ty = ''Action-oriented''
             then [\<lparr>outcome = ''Inappropriate action without verification'',
                    probability = Medium\<rparr>]
             else []))"
  unfolding generateHistoricalOutcomes_def Let_def by auto

text \<open>
  Claim C8, as the specification states it: on scenario C the score lies between 40 and
  60, the tier is Medium, and the predicted outcomes hold both the fear entry and the
  action entry. This fails: fear 0.5 does not exceed the threshold 0.6 of the fear rule.
\<close>

theorem scenarioC_no_fear_entry:
  "\<not> (40 \<le> HarmAssessment.harmIndex (computeHarmIndex scenarioC)
       \<and> HarmAssessment.harmIndex (computeHarmIndex scenarioC) \<le> 60
       \<and> riskLevel (computeHarmIndex scenarioC) = Medium
       \<and> ''Panic behavior or anxiety''
            \<in> outcome ` set (pastOutcomes (historicalContext (computeHarmIndex scenarioC)))
       \<and> ''Inappropriate action without verification''
            \<in> outcome ` set (pastOutcomes (historicalContext (computeHarmIndex scenarioC))))"
proof -
  have "pastOutcomes (historicalContext (computeHarmIndex scenarioC)) =
      generateHistoricalOutcomes (HarmAssessment.harmIndex (computeHarmIndex scenarioC))
        ''Action-oriented'' \<lparr>anger = 0.1, fear = 0.5, joy = 0.1, sadness = 0.1, neutral = 0.2\<rparr>"
    unfolding pastOutcomes_unfold by (simp add: scenarioC_def)
  then have "pastOutcomes (historicalContext (computeHarmIndex scenarioC)) =
     [\<lparr>outcome = ''Inappropriate action without verification'', probability = Medium\<rparr>]"
    by (simp add: generateHistoricalOutcomes_def)
  then show ?thesis by simp
qed

text \<open>
  Claim C8, amended. On scenario C, with anger between 0 and 0.3, no explicit call to
  action, no contradicting source and no pattern score, the score lies between 40 and 60,
  the tier is Medium, and the predicted outcomes are the action entry alone.
\<close>

theorem scenarioC_assessment:
  assumes "fear (HarmIndexInput.emotionScores input) = 0.5"
    and "0 \<le> anger (HarmIndexInput.emotionScores input)"
    and "anger (HarmIndexInput.emotionScores input) \<le> 0.3"
    and "type (HarmIndexInput.intentAnalysis input) = Action_oriented"
    and "\<not> hasExplicitCTA (HarmIndexInput.intentAnalysis input)"
    and "hasImplicitCTA (HarmIndexInput.intentAnalysis input)"
    and "dogWhistleProbability (HarmIndexInput.intentAnalysis input) = 0.7"
    and "similarityToFalseNarratives (HarmIndexInput.truthVerification input) = 0.3"
    and "evidenceConfidence (HarmIndexInput.truthVerification input) = Medium"
    and "\<not> contradictorySources (HarmIndexInput.truthVerification input)"
    and "HarmIndexInput.cnnHarmScore input = None"
  shows "40 \<le> HarmAssessment.harmIndex (computeHarmIndex input)
     \<and> HarmAssessment.harmIndex (computeHarmIndex input) \<le> 60
     \<and> riskLevel (computeHarmIndex input) = Medium
     \<and> pastOutcomes (historicalContext (computeHarmIndex input)) =
         [\<lparr>outcome = ''Inappropriate action without verification'', probability = Medium\<rparr>]"
proof -
  let ?g = "\<lambda>x. fadd (fadd (fadd (fadd
        (fmul (fdiv (fadd (fmul x (binary64 1.2))
                          (fmul (binary64 0.5) (binary64 1.1))) 2) 20)
        (fmul (min 1 (fadd (fadd (binary64 0.6) (binary64 0.1))
                           (fmul (binary64 0.7) (binary64 0.2)))) 25))
        (fmul (binary64 0.3) 20))
        (fmul (min 1 (fadd (binary64 0.5) 0)) 15))
        (fmul 0 20)"
  let ?a = "binary64 (anger (HarmIndexInput.emotionScores input))"
  have h: "HarmAssessment.harmIndex (computeHarmIndex input) = Math_round (?g ?a)"
    unfolding harmIndex_unfold by (simp add: assms)
  have mono: "?g x \<le> ?g y" if "x \<le> y" for x y
    unfolding fadd_def fmul_def fdiv_def using that
    by (intro binary64_mono add_right_mono mult_right_mono divide_right_mono
          binary64_nonneg) simp_all
  have a0: "binary64 0 \<le> ?a"
    using assms(2) by (rule binary64_mono)
  have a3: "?a \<le> binary64 0.3"
    using assms(3) by (rule binary64_mono)
  have g0: "Math_round (?g (binary64 0)) = 40"
    by code_simp
  have g3: "Math_round (?g (binary64 0.3)) = 44"
    by code_simp
  have lo': "40 \<le> HarmAssessment.harmIndex (computeHarmIndex input)"
    unfolding h using Math_round_mono [OF mono [OF a0]] g0 by simp
  have hi': "HarmAssessment.harmIndex (computeHarmIndex input) \<le> 44"
    unfolding h using Math_round_mono [OF mono [OF a3]] g3 by simp
  have r: "riskLevel (computeHarmIndex input) = Medium"
    unfolding riskLevel_unfold using lo' hi' by simp
  have p: "pastOutcomes (historicalContext (computeHarmIndex input)) =
         [\<lparr>outcome = ''Inappropriate action without verification'', probability = Medium\<rparr>]"
    unfolding pastOutcomes_unfold generateHistoricalOutcomes_def Let_def using assms
    by simp
  show ?thesis using lo' hi' r p by simp
qed

theorem scenarioC_assessment_witness:
  "40 \<le> HarmAssessment.harmIndex (computeHarmIndex scenarioC)
   \<and> HarmAssessment.harmIndex (computeHarmIndex scenarioC) \<le> 60
   \<and> riskLevel (computeHarmIndex scenarioC) = Medium
   \<and> pastOutcomes (historicalContext (computeHarmIndex scenarioC)) =
         [\<lparr>outcome = ''Inappropriate action without verification'', probability = Medium\<rparr>]"
  using scenarioC_assessment [of scenarioC]
  by (simp add: scenarioC_def)

section \<open>The narrative composer\<close>




text \<open>
  Claim C10. The narrative is never empty: it begins with the bullet and a space, followed
  at once by one clause on emotional intensity, the high clause when anger or fear
  exceeds 0.6, else the moderate clause when anger or fear exceeds 0.3, else the low
  clause; and in the whole returned string the three intensity clauses together occur
  exactly once.
\<close>

theorem generateExplanation_nonempty:
  "generateExplanation h e i t \<noteq> []
   \<and> prefix bulletSpace (generateExplanation h e i t)
   \<and> prefix (bulletSpace @
         (if anger e > 0.6 \<or> fear e > 0.6
          then ''The statement is conveyed with **high emotional intensity** (anger and/or fear)''
          else if anger e > 0.3 \<or> fear e > 0.3
          then ''The statement shows **moderate emotional intensity**''
          else ''The statement has **low emotional intensity**''))
        (generateExplanation h e i t)
   \<and> occurrences
         (if anger e > 0.6 \<or> fear e > 0.6
          then ''The statement is conveyed with **high emotional intensity** (anger and/or fear)''
          else if anger e > 0.3 \<or> fear e > 0.3
          then ''The statement shows **moderate emotional intensity**''
          else ''The statement has **low emotional intensity**'')
         (generateExplanation h e i t) = 1
   \<and> sum_list (map (\<lambda>k. occurrences k (generateExplanation h e i t)) intensityClauses) = 1"
proof -
  obtain b rest where b: "b \<in> {HighIntensity, ModerateIntensity, LowIntensity}"
    and tier: "clauseText b =
         (if anger e > 0.6 \<or> fear e > 0.6
          then ''The statement is conveyed with **high emotional intensity** (anger and/or fear)''
          else if anger e > 0.3 \<or> fear e > 0.3
          then ''The statement shows **moderate emotional intensity**''
          else ''The statement has **low emotional intensity**'')"
    and rest: "CHR ''T'' \<notin> set rest"
    and shape: "generateExplanation h e i t = bulletSpace @ clauseText b @ rest"
    using narrative_shape [where h = h and e = e and i = i and t = t] by blast
  have occ: "occurrences (clauseText a) (generateExplanation h e i t) = (if a = b then 1 else 0)"
    if "a \<in> {HighIntensity, ModerateIntensity, LowIntensity}" for a
    unfolding shape using that b rest by (rule intensity_occurrences)
  have "generateExplanation h e i t \<noteq> []"
    by (simp add: generateExplanation_def bulletSpace_def bullet_def)
  moreover have "prefix bulletSpace (generateExplanation h e i t)"
    by (simp add: generateExplanation_def)
  moreover have "prefix (bulletSpace @ clauseText b) (generateExplanation h e i t)"
    unfolding shape by simp
  moreover have "occurrences (clauseText b) (generateExplanation h e i t) = 1"
    using occ [OF b] by simp
  moreover have
    "sum_list (map (\<lambda>k. occurrences k (generateExplanation h e i t)) intensityClauses) = 1"
    unfolding intensityClauses_def list.map sum_list.Cons sum_list.Nil
    using b by (auto simp only: occ insert_iff empty_iff simp_thms if_True if_False
        Clause.distinct add_0 add_0_right)
  ultimately show ?thesis
    unfolding tier by blast
qed

section \<open>The handler\<close>

text \<open>
  Claim C3. For a non-empty text the handler answers with a complete assessment whatever
  the five signal services do. A signal whose call failed is its static default (emotion:
  anger 0.1, fear 0.1, joy 0.2, sadness 0.1, neutral 0.5; intent: Informational, no call
  to action, dog-whistle probability 0.1; truth: similarity 0.2, confidence Medium, no
  contradicting source; pattern: harm score 0.3; the temporal signal likewise), a signal
  whose call delivered data is that data, and the composite score, with the whole
  assessment, is \<open>computeHarmIndex\<close> applied to these signals.
\<close>

theorem analyze_producer_defaults:
  assumes "s \<noteq> []"
  shows "\<exists>d. snd (analyze services (JString s)) = \<lparr>status = 200, body = Success d\<rparr>
    \<and> HarmAssessment.emotionScores d =
        (case emotion services s of
           Some (AxiosResponse (Some e)) \<Rightarrow> e
         | _ \<Rightarrow> \<lparr>anger = 0.1, fear = 0.1, joy = 0.2, sadness = 0.1, neutral = 0.5\<rparr>)
    \<and> HarmAssessment.intentAnalysis d =
        (case intent services s of
           Some (AxiosResponse (Some i)) \<Rightarrow> i
         | _ \<Rightarrow> \<lparr>type = Informational, hasExplicitCTA = False, hasImplicitCTA = False,
                 dogWhistleProbability = 0.1\<rparr>)
    \<and> HarmAssessment.truthVerification d =
        (case rag services s of
           Some (AxiosResponse (Some t)) \<Rightarrow> t
         | _ \<Rightarrow> \<lparr>similarityToFalseNarratives = 0.2, evidenceConfidence = Medium,
                 contradictorySources = False, similarClaims = []\<rparr>)
    \<and> cnnBertResult d =
        (case cnnBert services s of
           Some (AxiosResponse (Some c)) \<Rightarrow> c
         | _ \<Rightarrow> \<lparr>harm_score = Some 0.3, confidence = 0.5, bert_features = [],
                 cnn_patterns = []\<rparr>)
    \<and> HarmAssessment.cnnHarmScore d =
        Some (case harm_score (cnnBertResult d) of None \<Rightarrow> 0 | Some p \<Rightarrow> p)
    \<and> timeseriesData d =
        (case timeseries services s of
           Some (AxiosResponse (Some ts)) \<Rightarrow> ts
         | _ \<Rightarrow> \<lparr>detected_categories = [], trends = [],
                 historical_context = ''No historical data available'',
                 risk_forecast = ''Unable to forecast'', similar_incidents = []\<rparr>)
    \<and> HarmAssessment.harmIndex d =
        HarmAssessment.harmIndex (computeHarmIndex
          \<lparr>text' = s, emotionScores = HarmAssessment.emotionScores d,
           intentAnalysis = HarmAssessment.intentAnalysis d,
           truthVerification = HarmAssessment.truthVerification d,
           cnnHarmScore = HarmAssessment.cnnHarmScore d\<rparr>)
    \<and> HarmAssessment.truncate d =
        computeHarmIndex
          \<lparr>text' = s, emotionScores = HarmAssessment.emotionScores d,
           intentAnalysis = HarmAssessment.intentAnalysis d,
           truthVerification = HarmAssessment.truthVerification d,
           cnnHarmScore = HarmAssessment.cnnHarmScore d\<rparr>"
proof -
  obtain l where r: "snd (runAnalysis services s) =
     \<lparr>status = 200,
      body = Success (HarmAssessment.extend
        (computeHarmIndex
          \<lparr>text' = s,
           emotionScores = dataOr (emotion services s)
             \<lparr>anger = 0.1, fear = 0.1, joy = 0.2, sadness = 0.1, neutral = 0.5\<rparr>,
           intentAnalysis = dataOr (intent services s)
             \<lparr>type = Informational, hasExplicitCTA = False, hasImplicitCTA = False,
              dogWhistleProbability = 0.1\<rparr>,
           truthVerification = dataOr (rag services s)
             \<lparr>similarityToFalseNarratives = 0.2, evidenceConfidence = Medium,
              contradictorySources = False, similarClaims = []\<rparr>,
           cnnHarmScore = Some (case harm_score (dataOr (cnnBert services s)
               \<lparr>harm_score = Some 0.3, confidence = 0.5, bert_features = [],
                cnn_patterns = []\<rparr>)
             of None \<Rightarrow> 0 | Some s \<Rightarrow> s)\<rparr>)
        (AnalysisData.fields
          (dataOr (cnnBert services s)
             \<lparr>harm_score = Some 0.3, confidence = 0.5, bert_features = [],
              cnn_patterns = []\<rparr>)
          (dataOr (timeseries services s)
             \<lparr>detected_categories = [], trends = [],
              historical_context = ''No historical data available'',
              risk_forecast = ''Unable to forecast'', similar_incidents = []\<rparr>)
          l))\<rparr>"
    using runAnalysis_response by blast
  show ?thesis
    unfolding analyze_string [OF assms] r
    by (rule exI, intro conjI, rule refl)
       (simp_all only: extend_sel extend_fields extend_truncate signals_unfold
          HarmIndexInput.simps dataOr_cases)
qed

theorem analyze_producer_defaults_witness:
  "''hello'' \<noteq> []
   \<and> (\<exists>d. snd (analyze unreachableServices (JString ''hello''))
            = \<lparr>status = 200, body = Success d\<rparr>
        \<and> HarmAssessment.emotionScores d
            = \<lparr>anger = 0.1, fear = 0.1, joy = 0.2, sadness = 0.1, neutral = 0.5\<rparr>
        \<and> HarmAssessment.intentAnalysis d
            = \<lparr>type = Informational, hasExplicitCTA = False, hasImplicitCTA = False,
               dogWhistleProbability = 0.1\<rparr>
        \<and> HarmAssessment.truthVerification d
            = \<lparr>similarityToFalseNarratives = 0.2, evidenceConfidence = Medium,
               contradictorySources = False, similarClaims = []\<rparr>
        \<and> HarmAssessment.cnnHarmScore d = Some 0.3
        \<and> HarmAssessment.harmIndex d = 23)"
proof -
  have n: "''hello'' \<noteq> []" by simp
  obtain d where d:
    "snd (analyze unreachableServices (JString ''hello'')) = \<lparr>status = 200, body = Success d\<rparr>"
    "HarmAssessment.emotionScores d
       = \<lparr>anger = 0.1, fear = 0.1, joy = 0.2, sadness = 0.1, neutral = 0.5\<rparr>"
    "HarmAssessment.intentAnalysis d
       = \<lparr>type = Informational, hasExplicitCTA = False, hasImplicitCTA = False,
          dogWhistleProbability = 0.1\<rparr>"
    "HarmAssessment.truthVerification d
       = \<lparr>similarityToFalseNarratives = 0.2, evidenceConfidence = Medium,
          contradictorySources = False, similarClaims = []\<rparr>"
    "HarmAssessment.cnnHarmScore d = Some 0.3"
    "HarmAssessment.harmIndex d =
        HarmAssessment.harmIndex (computeHarmIndex
          \<lparr>text' = ''hello'', emotionScores = HarmAssessment.emotionScores d,
           intentAnalysis = HarmAssessment.intentAnalysis d,
           truthVerification = HarmAssessment.truthVerification d,
           cnnHarmScore = HarmAssessment.cnnHarmScore d\<rparr>)"
    using analyze_producer_defaults [OF n, of unreachableServices]
    by (auto simp: unreachableServices_def)
  have "HarmAssessment.harmIndex d = 23"
    unfolding d(6) harmIndex_unfold d(2-5)
    by code_simp
  with n d show ?thesis by blast
qed

text \<open>
  Claim C6. The handler answers 400 exactly when the text is the empty string or not a
  string at all; it then has issued no call to any service. For every non-empty string
  it answers 200 with an assessment, whatever the services do.
\<close>

theorem analyze_invalid_input:
  "(status (snd (analyze services v)) = 400 \<longleftrightarrow> v = JString [] \<or> typeof v \<noteq> ''string'')
   \<and> (status (snd (analyze services v)) = 400 \<longrightarrow>
        analyze services v
          = ([], \<lparr>status = 400, body = Failure ''Text is required and must be a string''\<rparr>))
   \<and> (\<forall>s. s \<noteq> [] \<longrightarrow>
        (\<exists>d. snd (analyze services (JString s)) = \<lparr>status = 200, body = Success d\<rparr>))"
proof -
  have ok: "\<exists>d. snd (analyze services (JString s)) = \<lparr>status = 200, body = Success d\<rparr>"
    if "s \<noteq> []" for s
    unfolding analyze_string [OF that] by (rule runAnalysis_ok)
  have iff: "status (snd (analyze services v)) = 400 \<longleftrightarrow> v = JString [] \<or> typeof v \<noteq> ''string''"
  proof (cases "v = JString [] \<or> typeof v \<noteq> ''string''")
    case True
    then show ?thesis by (simp add: analyze_rejected)
  next
    case False
    then obtain s where s: "v = JString s" "s \<noteq> []"
      using typeof_string [of v] by auto
    obtain d where "snd (analyze services v) = \<lparr>status = 200, body = Success d\<rparr>"
      using ok [OF s(2)] s(1) by auto
    with False show ?thesis by simp
  qed
  have rej: "status (snd (analyze services v)) = 400 \<longrightarrow>
        analyze services v
          = ([], \<lparr>status = 400, body = Failure ''Text is required and must be a string''\<rparr>)"
    using iff analyze_rejected by blast
  show ?thesis using iff rej ok by blast
qed

theorem analyze_invalid_input_witness:
  "analyze unreachableServices (JString [])
     = ([], \<lparr>status = 400, body = Failure ''Text is required and must be a string''\<rparr>)
   \<and> analyze unreachableServices JUndefined
     = ([], \<lparr>status = 400, body = Failure ''Text is required and must be a string''\<rparr>)
   \<and> ''hello'' \<noteq> []
   \<and> (\<exists>d. snd (analyze unreachableServices (JString ''hello''))
            = \<lparr>status = 200, body = Success d\<rparr>)"
  using analyze_invalid_input [of unreachableServices "JString []"]
    analyze_invalid_input [of unreachableServices JUndefined]
  by simp

end
